theory Spec2Isabelle
  imports Main "HOL-Library.Multiset"
begin

section \<open>The project descriptor (package config)\<close>

text \<open>
  The Go struct \<open>Project\<close> holds one record per TOML section. Every nested struct is a
  record of its own; its fields carry the section name as a prefix, so that
  \<open>p.Consultant.Ownership\<close> of the source reads \<open>Consultant_Ownership (Consultant p)\<close>.
  A Go string is a \<open>string\<close>, a \<open>[]string\<close> a \<open>string list\<close> (the source only asks for
  its length and its first element, so \<open>nil\<close> and the empty slice are both \<open>[]\<close>).
\<close>

record TmuxWindow =
  TmuxWindow_Name :: string
  TmuxWindow_Command :: string
  TmuxWindow_Path :: string

record ProjectInfo_section =
  ProjectInfo_Name :: string
  ProjectInfo_ID :: string
  ProjectInfo_Status :: string
  ProjectInfo_Type :: string

record Tech_section =
  Tech_Stack :: "string list"
  Tech_Domain :: "string list"

record Dates_section =
  Dates_Started :: string
  Dates_Completed :: string

record Links_section =
  Links_Repository :: string
  Links_Documentation :: string
  Links_ScriptoriumProject :: string
  Links_ConduitGraph :: string

record Notes_section =
  Notes_Description :: string

record Tmux_section =
  Tmux_Layout :: string
  Tmux_Windows :: "TmuxWindow list"

record Context_section =
  Context_AWSProfile :: string
  Context_AzureSubscription :: string
  Context_GCloudProject :: string
  Context_DatabricksProfile :: string
  Context_SnowflakeAccount :: string
  Context_GitIdentity :: string

record Consultant_section =
  Consultant_Ownership :: string
  Consultant_ClientName :: string
  Consultant_ClientType :: string
  Consultant_Partner :: string
  Consultant_MyRole :: string
  Consultant_DeliverableType :: string
  Consultant_LicenseModel :: string
  Consultant_Billable :: bool
  Consultant_RateType :: string

record DataKai_section =
  DataKai_Visibility :: string
  DataKai_ScriptoriumProject :: string
  DataKai_ConduitGraph :: string
  DataKai_Protocols :: "string list"
  DataKai_DKOSVersion :: string
  DataKai_ProductCategory :: string
  DataKai_RevenueModel :: string
  DataKai_Maturity :: string

record LegacyOwnership_section =
  LegacyOwnership_Primary :: string
  LegacyOwnership_Partners :: "string list"
  LegacyOwnership_LicenseModel :: string
  LegacyOwnership_Visibility :: string

record LegacyClient_section =
  LegacyClient_EndClient :: string
  LegacyClient_Intermediary :: string
  LegacyClient_MyRole :: string

record Project =
  Path :: string
  ProjectInfo :: ProjectInfo_section
  Tech :: Tech_section
  Dates :: Dates_section
  Links :: Links_section
  Notes :: Notes_section
  Tmux :: Tmux_section
  Context :: Context_section
  Consultant :: Consultant_section
  DataKai :: DataKai_section
  LegacyOwnership :: LegacyOwnership_section
  LegacyClient :: LegacyClient_section
  migrated :: bool

text \<open>The zero value of the struct, which \<open>var project Project\<close> declares.\<close>

definition zero_Project :: Project where
  "zero_Project =
     \<lparr>Path = '''',
      ProjectInfo = \<lparr>ProjectInfo_Name = '''', ProjectInfo_ID = '''',
                     ProjectInfo_Status = '''', ProjectInfo_Type = ''''\<rparr>,
      Tech = \<lparr>Tech_Stack = [], Tech_Domain = []\<rparr>,
      Dates = \<lparr>Dates_Started = '''', Dates_Completed = ''''\<rparr>,
      Links = \<lparr>Links_Repository = '''', Links_Documentation = '''',
               Links_ScriptoriumProject = '''', Links_ConduitGraph = ''''\<rparr>,
      Notes = \<lparr>Notes_Description = ''''\<rparr>,
      Tmux = \<lparr>Tmux_Layout = '''', Tmux_Windows = []\<rparr>,
      Context = \<lparr>Context_AWSProfile = '''', Context_AzureSubscription = '''',
                 Context_GCloudProject = '''', Context_DatabricksProfile = '''',
                 Context_SnowflakeAccount = '''', Context_GitIdentity = ''''\<rparr>,
      Consultant = \<lparr>Consultant_Ownership = '''', Consultant_ClientName = '''',
                    Consultant_ClientType = '''', Consultant_Partner = '''',
                    Consultant_MyRole = '''', Consultant_DeliverableType = '''',
                    Consultant_LicenseModel = '''', Consultant_Billable = False,
                    Consultant_RateType = ''''\<rparr>,
      DataKai = \<lparr>DataKai_Visibility = '''', DataKai_ScriptoriumProject = '''',
                 DataKai_ConduitGraph = '''', DataKai_Protocols = [],
                 DataKai_DKOSVersion = '''', DataKai_ProductCategory = '''',
                 DataKai_RevenueModel = '''', DataKai_Maturity = ''''\<rparr>,
      LegacyOwnership = \<lparr>LegacyOwnership_Primary = '''', LegacyOwnership_Partners = [],
                         LegacyOwnership_LicenseModel = '''',
                         LegacyOwnership_Visibility = ''''\<rparr>,
      LegacyClient = \<lparr>LegacyClient_EndClient = '''', LegacyClient_Intermediary = '''',
                      LegacyClient_MyRole = ''''\<rparr>,
      migrated = False\<rparr>"

subsection \<open>Accessors\<close>

definition GetOwner :: "Project \<Rightarrow> string" where
  "GetOwner p =
     (if Consultant_Ownership (Consultant p) \<noteq> '''' then Consultant_Ownership (Consultant p)
      else LegacyOwnership_Primary (LegacyOwnership p))"

definition GetLicenseModel :: "Project \<Rightarrow> string" where
  "GetLicenseModel p =
     (if Consultant_LicenseModel (Consultant p) \<noteq> ''''
      then Consultant_LicenseModel (Consultant p)
      else LegacyOwnership_LicenseModel (LegacyOwnership p))"

definition GetClientName :: "Project \<Rightarrow> string" where
  "GetClientName p =
     (if Consultant_ClientName (Consultant p) \<noteq> '''' then Consultant_ClientName (Consultant p)
      else LegacyClient_EndClient (LegacyClient p))"

definition GetPartner :: "Project \<Rightarrow> string" where
  "GetPartner p =
     (if Consultant_Partner (Consultant p) \<noteq> '''' then Consultant_Partner (Consultant p)
      else (case LegacyOwnership_Partners (LegacyOwnership p) of
              first # _ \<Rightarrow> first
            | [] \<Rightarrow> LegacyClient_Intermediary (LegacyClient p)))"

definition GetMyRole :: "Project \<Rightarrow> string" where
  "GetMyRole p =
     (if Consultant_MyRole (Consultant p) \<noteq> '''' then Consultant_MyRole (Consultant p)
      else LegacyClient_MyRole (LegacyClient p))"

definition GetPartners :: "Project \<Rightarrow> string list" where
  "GetPartners p =
     (if Consultant_Partner (Consultant p) \<noteq> '''' then [Consultant_Partner (Consultant p)]
      else LegacyOwnership_Partners (LegacyOwnership p))"

subsection \<open>Schema migration\<close>

text \<open>
  \<open>migrateSchema\<close> mutates the receiver in place; the model returns the updated struct.
  The three blocks of the source are three steps, applied in the source's order; the
  conditions \<open>hasLegacyOwnership\<close> and \<open>hasLegacyClient\<close> are computed once, on entry.
\<close>

definition migrateOwnership :: "Project \<Rightarrow> Project" where
  "migrateOwnership p =
     (let lo = LegacyOwnership p;
          p1 = p\<lparr>Consultant := (Consultant p)\<lparr>Consultant_Ownership := LegacyOwnership_Primary lo\<rparr>\<rparr>;
          p2 = p1\<lparr>Consultant :=
                   (Consultant p1)\<lparr>Consultant_LicenseModel := LegacyOwnership_LicenseModel lo\<rparr>\<rparr>;
          p3 = (case LegacyOwnership_Partners lo of
                  first # _ \<Rightarrow> p2\<lparr>Consultant := (Consultant p2)\<lparr>Consultant_Partner := first\<rparr>\<rparr>
                | [] \<Rightarrow> p2)
      in if LegacyOwnership_Visibility lo \<noteq> ''''
         then p3\<lparr>DataKai := (DataKai p3)\<lparr>DataKai_Visibility := LegacyOwnership_Visibility lo\<rparr>\<rparr>
         else p3)"

definition migrateClient :: "Project \<Rightarrow> Project" where
  "migrateClient p =
     (let lc = LegacyClient p;
          p1 = p\<lparr>Consultant := (Consultant p)\<lparr>Consultant_ClientName := LegacyClient_EndClient lc\<rparr>\<rparr>;
          p2 = p1\<lparr>Consultant := (Consultant p1)\<lparr>Consultant_MyRole := LegacyClient_MyRole lc\<rparr>\<rparr>
      in if LegacyClient_Intermediary lc \<noteq> ''''
         then p2\<lparr>Consultant :=
                  (Consultant p2)\<lparr>Consultant_Partner := LegacyClient_Intermediary lc,
                                   Consultant_ClientType := ''partner''\<rparr>\<rparr>
         else if LegacyClient_EndClient lc \<noteq> ''''
         then p2\<lparr>Consultant := (Consultant p2)\<lparr>Consultant_ClientType := ''direct''\<rparr>\<rparr>
         else p2)"

definition migrateLinks :: "Project \<Rightarrow> Project" where
  "migrateLinks p =
     (let p1 = (if Links_ScriptoriumProject (Links p) \<noteq> ''''
                then p\<lparr>DataKai := (DataKai p)\<lparr>DataKai_ScriptoriumProject :=
                                                  Links_ScriptoriumProject (Links p)\<rparr>,
                       migrated := True\<rparr>
                else p)
      in if Links_ConduitGraph (Links p1) \<noteq> ''''
         then p1\<lparr>DataKai := (DataKai p1)\<lparr>DataKai_ConduitGraph := Links_ConduitGraph (Links p1)\<rparr>,
                 migrated := True\<rparr>
         else p1)"

definition migrateSchema :: "Project \<Rightarrow> Project" where
  "migrateSchema p =
     (let hasLegacyOwnership = (LegacyOwnership_Primary (LegacyOwnership p) \<noteq> '''');
          hasLegacyClient = (LegacyClient_EndClient (LegacyClient p) \<noteq> '''' \<or>
                             LegacyClient_Intermediary (LegacyClient p) \<noteq> '''')
      in if \<not> hasLegacyOwnership \<and> \<not> hasLegacyClient \<and>
            Links_ScriptoriumProject (Links p) = '''' \<and> Links_ConduitGraph (Links p) = ''''
         then p
         else
           (let p1 = p\<lparr>migrated := True\<rparr>;
                p2 = (if hasLegacyOwnership then migrateOwnership p1 else p1);
                p3 = (if hasLegacyClient then migrateClient p2 else p2)
            in migrateLinks p3))"

subsection \<open>Errors, library functions and the operating system\<close>

text \<open>
  A Go \<open>error\<close> is a value of the datatype \<open>error\<close>. \<open>SkipDir\<close> and \<open>SkipAll\<close> are the two
  sentinel values of \<open>path/filepath\<close>; an error of the operating system is a \<open>PathError\<close>,
  which is never one of the sentinels; \<open>DecodeError\<close> is what the TOML and JSON decoders
  report on invalid input. \<open>NilPointerPanic\<close> stands for the panic of a method call on a
  nil \<open>os.FileInfo\<close>.
\<close>

datatype oserror = ErrNotExist | ErrPermission | ErrIO string

datatype error = SkipDir | SkipAll | PathError oserror | DecodeError string | NilPointerPanic

fun os_IsNotExist :: "error \<Rightarrow> bool" where
  "os_IsNotExist (PathError ErrNotExist) = True"
| "os_IsNotExist _ = False"

record AccessRecord =
  ProjectID :: string
  ProjectPath :: string
  LastAccessed :: int

text \<open>
  The functions of libraries that the code calls and whose source is not part of the
  repository are parameters, collected in the record \<open>lib\<close>: \<open>filepath.Dir\<close>,
  \<open>filepath.Join\<close>, the TOML decoder (decoding a document into a struct that already
  holds values), the JSON encoder and decoder at the two types they are used at, and
  \<open>sort.Slice\<close> (which receives the comparison on elements instead of on indices).
\<close>

record lib =
  filepath_Dir :: "string \<Rightarrow> string"
  filepath_Join :: "string list \<Rightarrow> string"
  toml_Decode :: "string \<Rightarrow> Project \<Rightarrow> error + Project"
  json_Unmarshal_projects :: "string \<Rightarrow> error + Project list"
  json_MarshalIndent_projects :: "Project list \<Rightarrow> error + string"
  json_Unmarshal_records :: "string \<Rightarrow> error + (string \<rightharpoonup> AccessRecord)"
  sort_Slice :: "(Project \<Rightarrow> Project \<Rightarrow> bool) \<Rightarrow> Project list \<Rightarrow> Project list"

text \<open>
  The directory trees that the discovery walks. An \<open>fsnode\<close> is an entry whose
  \<open>os.Lstat\<close> succeeded: a non-directory, a directory with its entries in the order
  \<open>readDirNames\<close> returns them (sorted by name), or a directory that cannot be read.
  A \<open>dirent\<close> is a name inside a directory: either \<open>Lstat\<close> succeeds on it, or it fails.
  \<open>Lstat\<close> does not follow symbolic links, so a link is a non-directory.
\<close>

datatype fsnode = File string | Dir string "dirent list" | DirUnreadable string oserror
and dirent = Entry fsnode | LstatError string oserror

text \<open>
  What \<open>os.Stat\<close> and \<open>os.Lstat\<close> say of a root directory: \<open>NotExists\<close> when \<open>os.Stat\<close>
  fails with an error that \<open>os.IsNotExist\<close> accepts, otherwise what \<open>os.Lstat\<close> on the root
  and the directory reads below it return.
\<close>

datatype root_state = NotExists | Exists dirent

text \<open>
  The files read and written by path (descriptors, the cache snapshot, the access
  records): absent, present with contents and modification time, or inaccessible.
\<close>

datatype file_state = Absent | Inaccessible oserror | Present string int

text \<open>
  The state of the operating system. Times are nanoseconds since the epoch, durations
  are nanoseconds.
\<close>

record world =
  os_UserHomeDir :: "error + string"
  os_MkdirAll :: "string \<Rightarrow> error option"
  roots :: "string \<Rightarrow> root_state"
  files :: "string \<Rightarrow> file_state"
  time_Now :: int

record FileInfo =
  FileInfo_Name :: string
  FileInfo_IsDir :: bool

record FileStat =
  ModTime :: int
  Size :: nat

definition os_Stat :: "world \<Rightarrow> string \<Rightarrow> error + FileStat" where
  "os_Stat w name =
     (case files w name of
        Absent \<Rightarrow> Inl (PathError ErrNotExist)
      | Inaccessible e \<Rightarrow> Inl (PathError e)
      | Present data mtime \<Rightarrow> Inr \<lparr>ModTime = mtime, Size = length data\<rparr>)"

definition os_ReadFile :: "world \<Rightarrow> string \<Rightarrow> error + string" where
  "os_ReadFile w name =
     (case files w name of
        Absent \<Rightarrow> Inl (PathError ErrNotExist)
      | Inaccessible e \<Rightarrow> Inl (PathError e)
      | Present data mtime \<Rightarrow> Inr data)"

text \<open>Writing a file sets its modification time to the current time.\<close>

definition os_WriteFile :: "world \<Rightarrow> string \<Rightarrow> string \<Rightarrow> error option \<times> world" where
  "os_WriteFile w name data =
     (case files w name of
        Inaccessible e \<Rightarrow> (Some (PathError e), w)
      | _ \<Rightarrow> (None, w\<lparr>files := (files w)(name := Present data (time_Now w))\<rparr>))"

text \<open>
  \<open>Time.Sub\<close> saturates at the least and the greatest \<open>Duration\<close> (a 64-bit integer).
\<close>

definition maxDuration :: int where
  "maxDuration = 9223372036854775807"

definition minDuration :: int where
  "minDuration = - 9223372036854775808"

definition time_Sub :: "int \<Rightarrow> int \<Rightarrow> int" where
  "time_Sub t u =
     (let d = t - u
      in if d > maxDuration then maxDuration else if d < minDuration then minDuration else d)"

definition time_Since :: "world \<Rightarrow> int \<Rightarrow> int" where
  "time_Since w t = time_Sub (time_Now w) t"

definition time_Minute :: int where
  "time_Minute = 60 * 1000000000"

subsection \<open>Loading one descriptor\<close>

definition toml_DecodeFile :: "lib \<Rightarrow> world \<Rightarrow> string \<Rightarrow> Project \<Rightarrow> error + Project" where
  "toml_DecodeFile l w path v =
     (case os_ReadFile w path of
        Inl err \<Rightarrow> Inl err
      | Inr data \<Rightarrow> toml_Decode l data v)"

definition LoadProject :: "lib \<Rightarrow> world \<Rightarrow> string \<Rightarrow> error + Project" where
  "LoadProject l w path =
     (let project = zero_Project\<lparr>Path := filepath_Dir l path\<rparr>
      in case toml_DecodeFile l w path project of
           Inl err \<Rightarrow> Inl err
         | Inr project' \<Rightarrow> Inr (migrateSchema project'))"

subsection \<open>Discovery\<close>

text \<open>
  \<open>filepath.Walk\<close> and its helper \<open>walk\<close>, after the Go standard library (the version
  that reads a directory before it calls the walk function on it, once). The walk
  function receives the path, the \<open>FileInfo\<close> (nil when \<open>Lstat\<close> failed) and the error, and
  returns an error or nil; the variables it captures are the state \<open>'s\<close>, passed in and
  returned. \<open>lstat\<close> is the \<open>FileInfo\<close> of an entry on which \<open>Lstat\<close> succeeded.
\<close>

type_synonym 's WalkFunc =
  "string \<Rightarrow> FileInfo option \<Rightarrow> error option \<Rightarrow> 's \<Rightarrow> error option \<times> 's"

fun lstat :: "fsnode \<Rightarrow> FileInfo" where
  "lstat (File name) = \<lparr>FileInfo_Name = name, FileInfo_IsDir = False\<rparr>"
| "lstat (Dir name names) = \<lparr>FileInfo_Name = name, FileInfo_IsDir = True\<rparr>"
| "lstat (DirUnreadable name e) = \<lparr>FileInfo_Name = name, FileInfo_IsDir = True\<rparr>"

fun walk :: "lib \<Rightarrow> 's WalkFunc \<Rightarrow> string \<Rightarrow> fsnode \<Rightarrow> 's \<Rightarrow> error option \<times> 's"
and walk_names :: "lib \<Rightarrow> 's WalkFunc \<Rightarrow> string \<Rightarrow> dirent list \<Rightarrow> 's \<Rightarrow> error option \<times> 's"
where
  "walk l walkFn path (File name) s = walkFn path (Some (lstat (File name))) None s"
| "walk l walkFn path (DirUnreadable name e) s =
     walkFn path (Some (lstat (DirUnreadable name e))) (Some (PathError e)) s"
| "walk l walkFn path (Dir name names) s =
     (case walkFn path (Some (lstat (Dir name names))) None s of
        (Some err1, s1) \<Rightarrow> (Some err1, s1)
      | (None, s1) \<Rightarrow> walk_names l walkFn path names s1)"
| "walk_names l walkFn path [] s = (None, s)"
| "walk_names l walkFn path (LstatError name e # rest) s =
     (case walkFn (filepath_Join l [path, name]) None (Some (PathError e)) s of
        (Some err, s1) \<Rightarrow>
          if err \<noteq> SkipDir then (Some err, s1) else walk_names l walkFn path rest s1
      | (None, s1) \<Rightarrow> walk_names l walkFn path rest s1)"
| "walk_names l walkFn path (Entry node # rest) s =
     (case walk l walkFn (filepath_Join l [path, FileInfo_Name (lstat node)]) node s of
        (Some err, s1) \<Rightarrow>
          if \<not> FileInfo_IsDir (lstat node) \<or> err \<noteq> SkipDir then (Some err, s1)
          else walk_names l walkFn path rest s1
      | (None, s1) \<Rightarrow> walk_names l walkFn path rest s1)"

definition Walk :: "lib \<Rightarrow> 's WalkFunc \<Rightarrow> string \<Rightarrow> dirent \<Rightarrow> 's \<Rightarrow> error option \<times> 's" where
  "Walk l fn root d s =
     (case (case d of
              LstatError name e \<Rightarrow> fn root None (Some (PathError e)) s
            | Entry node \<Rightarrow> walk l fn root node s) of
        (Some err, s1) \<Rightarrow> if err = SkipDir \<or> err = SkipAll then (None, s1) else (Some err, s1)
      | (None, s1) \<Rightarrow> (None, s1))"

text \<open>
  The function literal that \<open>FindProjects\<close> passes to \<open>filepath.Walk\<close>; it appends to the
  captured slice \<open>projects\<close>.
\<close>

definition FindProjects_walkFn :: "lib \<Rightarrow> world \<Rightarrow> Project list WalkFunc" where
  "FindProjects_walkFn l w path info err projects =
     (case err of
        Some e \<Rightarrow> (Some e, projects)
      | None \<Rightarrow>
          (case info of
             None \<Rightarrow> (Some NilPointerPanic, projects)
           | Some i \<Rightarrow>
               if FileInfo_Name i = ''.project.toml''
               then (case LoadProject l w path of
                       Inl err \<Rightarrow> (None, projects)
                     | Inr project \<Rightarrow> (None, projects @ [project]))
               else (None, projects)))"

fun FindProjects_roots ::
  "lib \<Rightarrow> world \<Rightarrow> string list \<Rightarrow> Project list \<Rightarrow> error + Project list" where
  "FindProjects_roots l w [] projects = Inr projects"
| "FindProjects_roots l w (root # rest) projects =
     (case roots w root of
        NotExists \<Rightarrow> FindProjects_roots l w rest projects
      | Exists d \<Rightarrow>
          (case Walk l (FindProjects_walkFn l w) root d projects of
             (Some err, projects') \<Rightarrow> Inl err
           | (None, projects') \<Rightarrow> FindProjects_roots l w rest projects'))"

definition FindProjects :: "lib \<Rightarrow> world \<Rightarrow> string list \<Rightarrow> error + Project list" where
  "FindProjects l w rootDirs = FindProjects_roots l w rootDirs []"

section \<open>The cache (package cache)\<close>

definition CacheMaxAge :: int where
  "CacheMaxAge = 5 * time_Minute"

text \<open>
  \<open>os.MkdirAll\<close> creates the cache directory; the directory itself is not part of the
  model, only whether the call fails.
\<close>

definition GetCacheFile :: "lib \<Rightarrow> world \<Rightarrow> error + string" where
  "GetCacheFile l w =
     (case os_UserHomeDir w of
        Inl err \<Rightarrow> Inl err
      | Inr homeDir \<Rightarrow>
          (let cacheDir = filepath_Join l [homeDir, ''.cache'', ''pk'']
           in case os_MkdirAll w cacheDir of
                Some err \<Rightarrow> Inl err
              | None \<Rightarrow> Inr (filepath_Join l [cacheDir, ''projects.json''])))"

definition IsCacheValid :: "lib \<Rightarrow> world \<Rightarrow> bool" where
  "IsCacheValid l w =
     (case GetCacheFile l w of
        Inl err \<Rightarrow> False
      | Inr cacheFile \<Rightarrow>
          (case os_Stat w cacheFile of
             Inl err \<Rightarrow> False
           | Inr info \<Rightarrow> time_Since w (ModTime info) < CacheMaxAge))"

definition LoadFromCache :: "lib \<Rightarrow> world \<Rightarrow> error + Project list" where
  "LoadFromCache l w =
     (case GetCacheFile l w of
        Inl err \<Rightarrow> Inl err
      | Inr cacheFile \<Rightarrow>
          (case os_ReadFile w cacheFile of
             Inl err \<Rightarrow> Inl err
           | Inr data \<Rightarrow> json_Unmarshal_projects l data))"

definition SaveToCache :: "lib \<Rightarrow> world \<Rightarrow> Project list \<Rightarrow> error option \<times> world" where
  "SaveToCache l w projects =
     (case GetCacheFile l w of
        Inl err \<Rightarrow> (Some err, w)
      | Inr cacheFile \<Rightarrow>
          (case json_MarshalIndent_projects l projects of
             Inl err \<Rightarrow> (Some err, w)
           | Inr data \<Rightarrow> os_WriteFile w cacheFile data))"

text \<open>
  \<open>FindProjectsCached\<close> starts a goroutine that saves the fresh scan and does not wait
  for it. The model returns, with the result, the goroutines started: the write-back is
  scheduled, not run.
\<close>

datatype goroutine = Go_SaveToCache "Project list"

definition FindProjectsCached ::
  "lib \<Rightarrow> world \<Rightarrow> string list \<Rightarrow> (error + Project list) \<times> goroutine list" where
  "FindProjectsCached l w rootDirs =
     (let scan = (case FindProjects l w rootDirs of
                    Inl err \<Rightarrow> (Inl err, [])
                  | Inr projects \<Rightarrow> (Inr projects, [Go_SaveToCache projects]))
      in if IsCacheValid l w
         then (case LoadFromCache l w of
                 Inr projects \<Rightarrow> (Inr projects, [])
               | Inl err \<Rightarrow> scan)
         else scan)"

subsection \<open>Access records\<close>

definition GetAccessFile :: "lib \<Rightarrow> world \<Rightarrow> error + string" where
  "GetAccessFile l w =
     (case os_UserHomeDir w of
        Inl err \<Rightarrow> Inl err
      | Inr homeDir \<Rightarrow>
          (let cacheDir = filepath_Join l [homeDir, ''.cache'', ''pk'']
           in case os_MkdirAll w cacheDir of
                Some err \<Rightarrow> Inl err
              | None \<Rightarrow> Inr (filepath_Join l [cacheDir, ''access.json''])))"

definition LoadAccessRecords :: "lib \<Rightarrow> world \<Rightarrow> error + (string \<rightharpoonup> AccessRecord)" where
  "LoadAccessRecords l w =
     (case GetAccessFile l w of
        Inl err \<Rightarrow> Inl err
      | Inr accessFile \<Rightarrow>
          (case os_ReadFile w accessFile of
             Inl err \<Rightarrow> if os_IsNotExist err then Inr Map.empty else Inl err
           | Inr data \<Rightarrow> json_Unmarshal_records l data))"

text \<open>
  The comparison that \<open>GetRecentProjects\<close> hands to \<open>sort.Slice\<close>, on the two elements at
  the indices \<open>i\<close> and \<open>j\<close>.
\<close>

definition GetRecentProjects_less ::
  "(string \<rightharpoonup> AccessRecord) \<Rightarrow> Project \<Rightarrow> Project \<Rightarrow> bool" where
  "GetRecentProjects_less records pi pj =
     (case (records (ProjectInfo_ID (ProjectInfo pi)), records (ProjectInfo_ID (ProjectInfo pj))) of
        (None, None) \<Rightarrow> False
      | (None, Some accessJ) \<Rightarrow> False
      | (Some accessI, None) \<Rightarrow> True
      | (Some accessI, Some accessJ) \<Rightarrow> LastAccessed accessI > LastAccessed accessJ)"

definition GetRecentProjects :: "lib \<Rightarrow> world \<Rightarrow> int \<Rightarrow> error + Project list" where
  "GetRecentProjects l w limit =
     (case LoadAccessRecords l w of
        Inl err \<Rightarrow> Inl err
      | Inr records \<Rightarrow>
          (case os_UserHomeDir w of
             Inl err \<Rightarrow> Inl err
           | Inr homeDir \<Rightarrow>
               (case fst (FindProjectsCached l w
                            [filepath_Join l [homeDir, ''projects''],
                             filepath_Join l [homeDir, ''scratch'']]) of
                  Inl err \<Rightarrow> Inl err
                | Inr projects \<Rightarrow>
                    (let projects' = sort_Slice l (GetRecentProjects_less records) projects
                     in if limit > 0 \<and> limit < int (length projects')
                        then Inr (take (nat limit) projects')
                        else Inr projects'))))"

section \<open>What a scan is expected to find\<close>

text \<open>
  The first error of the operating system that a walk over a tree meets, in the order
  of the walk: a directory that cannot be read, or an entry on which \<open>Lstat\<close> fails.
\<close>

fun first_error :: "fsnode \<Rightarrow> oserror option"
and first_error_names :: "dirent list \<Rightarrow> oserror option"
where
  "first_error (File name) = None"
| "first_error (DirUnreadable name e) = Some e"
| "first_error (Dir name names) = first_error_names names"
| "first_error_names [] = None"
| "first_error_names (LstatError name e # rest) = Some e"
| "first_error_names (Entry node # rest) =
     (case first_error node of
        Some e \<Rightarrow> Some e
      | None \<Rightarrow> first_error_names rest)"

text \<open>
  The paths of the entries named \<open>.project.toml\<close> in a tree, in the order of the walk.
\<close>

fun descriptors :: "lib \<Rightarrow> string \<Rightarrow> fsnode \<Rightarrow> string list"
and descriptors_names :: "lib \<Rightarrow> string \<Rightarrow> dirent list \<Rightarrow> string list"
where
  "descriptors l path (File name) = (if name = ''.project.toml'' then [path] else [])"
| "descriptors l path (DirUnreadable name e) = []"
| "descriptors l path (Dir name names) =
     (if name = ''.project.toml'' then [path] else []) @ descriptors_names l path names"
| "descriptors_names l path [] = []"
| "descriptors_names l path (LstatError name e # rest) = descriptors_names l path rest"
| "descriptors_names l path (Entry node # rest) =
     descriptors l (filepath_Join l [path, FileInfo_Name (lstat node)]) node @
     descriptors_names l path rest"

fun root_error :: "root_state \<Rightarrow> oserror option" where
  "root_error NotExists = None"
| "root_error (Exists (LstatError name e)) = Some e"
| "root_error (Exists (Entry node)) = first_error node"

fun root_descriptors :: "lib \<Rightarrow> string \<Rightarrow> root_state \<Rightarrow> string list" where
  "root_descriptors l root NotExists = []"
| "root_descriptors l root (Exists (LstatError name e)) = []"
| "root_descriptors l root (Exists (Entry node)) = descriptors l root node"

text \<open>The entities of the descriptors, among the given paths, that load without error.\<close>

fun loaded :: "lib \<Rightarrow> world \<Rightarrow> string list \<Rightarrow> Project list" where
  "loaded l w [] = []"
| "loaded l w (path # paths) =
     (case LoadProject l w path of
        Inl err \<Rightarrow> loaded l w paths
      | Inr project \<Rightarrow> project # loaded l w paths)"

text \<open>
  The first root, in the order given, whose walk meets an error of the operating
  system, with that error.
\<close>

fun first_failing_root :: "world \<Rightarrow> string list \<Rightarrow> oserror option" where
  "first_failing_root w [] = None"
| "first_failing_root w (root # rest) =
     (case root_error (roots w root) of
        Some e \<Rightarrow> Some e
      | None \<Rightarrow> first_failing_root w rest)"

fun all_descriptors :: "lib \<Rightarrow> world \<Rightarrow> string list \<Rightarrow> string list" where
  "all_descriptors l w [] = []"
| "all_descriptors l w (root # rest) =
     root_descriptors l root (roots w root) @ all_descriptors l w rest"

section \<open>What sorting is expected to achieve\<close>

text \<open>
  The contract of \<open>sort.Slice\<close>: given a comparison that is a strict weak ordering, the
  result is a rearrangement of the slice in which no element is less than an earlier
  one. The order of elements that compare equal is not fixed.
\<close>

definition strict_weak_order :: "('a \<Rightarrow> 'a \<Rightarrow> bool) \<Rightarrow> bool" where
  "strict_weak_order lt \<longleftrightarrow>
     (\<forall>a. \<not> lt a a) \<and>
     (\<forall>a b c. lt a b \<longrightarrow> lt b c \<longrightarrow> lt a c) \<and>
     (\<forall>a b c. \<not> lt a b \<longrightarrow> \<not> lt b c \<longrightarrow> \<not> lt a c)"

definition sorts :: "(('a \<Rightarrow> 'a \<Rightarrow> bool) \<Rightarrow> 'a list \<Rightarrow> 'a list) \<Rightarrow> bool" where
  "sorts srt \<longleftrightarrow>
     (\<forall>lt xs. strict_weak_order lt \<longrightarrow>
        mset (srt lt xs) = mset xs \<and> sorted_wrt (\<lambda>a b. \<not> lt b a) (srt lt xs))"

text \<open>
  The order the specification asks of the recent projects: \<open>a\<close> may stand before \<open>b\<close>
  when \<open>b\<close> was never accessed, or when both were accessed and \<open>a\<close> not earlier than \<open>b\<close>.
\<close>

definition recency_order :: "(string \<rightharpoonup> AccessRecord) \<Rightarrow> Project \<Rightarrow> Project \<Rightarrow> bool" where
  "recency_order records a b =
     (case records (ProjectInfo_ID (ProjectInfo b)) of
        None \<Rightarrow> True
      | Some accessB \<Rightarrow>
          (case records (ProjectInfo_ID (ProjectInfo a)) of
             None \<Rightarrow> False
           | Some accessA \<Rightarrow> LastAccessed accessA \<ge> LastAccessed accessB))"

section \<open>Example descriptors\<close>

text \<open>
  A descriptor that sets the new-schema fields and the legacy fields to different
  values.
\<close>

definition conflict_Project :: Project where
  "conflict_Project =
     zero_Project
       \<lparr>Consultant := (Consultant zero_Project)
          \<lparr>Consultant_Ownership := ''datakai'', Consultant_ClientName := ''Initech''\<rparr>,
        DataKai := (DataKai zero_Project)\<lparr>DataKai_Visibility := ''public''\<rparr>,
        LegacyOwnership := (LegacyOwnership zero_Project)
          \<lparr>LegacyOwnership_Primary := ''acme'', LegacyOwnership_Visibility := ''private''\<rparr>,
        LegacyClient := (LegacyClient zero_Project)\<lparr>LegacyClient_EndClient := ''Acme Corp''\<rparr>\<rparr>"

text \<open>
  A descriptor with new-schema license model, client name and role, and legacy sections
  that name an owner and an intermediary only.
\<close>

definition partial_legacy_Project :: Project where
  "partial_legacy_Project =
     zero_Project
       \<lparr>Consultant := (Consultant zero_Project)
          \<lparr>Consultant_LicenseModel := ''proprietary'', Consultant_ClientName := ''Initech'',
           Consultant_MyRole := ''lead''\<rparr>,
        LegacyOwnership := (LegacyOwnership zero_Project)\<lparr>LegacyOwnership_Primary := ''acme''\<rparr>,
        LegacyClient := (LegacyClient zero_Project)
          \<lparr>LegacyClient_Intermediary := ''West Monroe''\<rparr>\<rparr>"

text \<open>A descriptor with new-schema fields only.\<close>

definition new_only_Project :: Project where
  "new_only_Project =
     zero_Project
       \<lparr>Consultant := (Consultant zero_Project)
          \<lparr>Consultant_Ownership := ''datakai'', Consultant_LicenseModel := ''proprietary'',
           Consultant_ClientName := ''Initech'', Consultant_MyRole := ''lead''\<rparr>\<rparr>"

text \<open>A descriptor whose legacy ownership section has a visibility and no primary owner.\<close>

definition visibility_only_Project :: Project where
  "visibility_only_Project =
     zero_Project
       \<lparr>LegacyOwnership := (LegacyOwnership zero_Project)
          \<lparr>LegacyOwnership_Visibility := ''private''\<rparr>\<rparr>"

section \<open>An example library and example states\<close>

text \<open>
  Stand-ins for the library functions, for the examples only: paths are joined with a
  slash, the directory of a path is what precedes its last slash, and the TOML decoder
  knows the documents of the table \<open>ex_documents\<close>, each with the assignments that
  decoding it makes to the struct; every other document has invalid syntax. The JSON
  decoders know one snapshot and one file of access records.
\<close>

fun ex_Join :: "string list \<Rightarrow> string" where
  "ex_Join [] = ''''"
| "ex_Join [x] = x"
| "ex_Join (x # y # ys) = x @ ''/'' @ ex_Join (y # ys)"

definition ex_Dir :: "string \<Rightarrow> string" where
  "ex_Dir path = rev (drop 1 (dropWhile (\<lambda>c. c \<noteq> CHR ''/'') (rev path)))"

definition set_ID :: "string \<Rightarrow> Project \<Rightarrow> Project" where
  "set_ID ident v = v\<lparr>ProjectInfo := (ProjectInfo v)\<lparr>ProjectInfo_ID := ident\<rparr>\<rparr>"

definition ex_documents :: "(string \<times> (Project \<Rightarrow> Project)) list" where
  "ex_documents =
     [(''alpha'', \<lambda>v. (set_ID ''alpha'' v)
          \<lparr>LegacyOwnership := (LegacyOwnership v)
             \<lparr>LegacyOwnership_Primary := ''acme'', LegacyOwnership_Visibility := ''private''\<rparr>\<rparr>),
      (''beta'', set_ID ''beta''),
      (''gamma'', set_ID ''gamma''),
      (''conflict'', \<lambda>v. conflict_Project\<lparr>Path := Path v\<rparr>),
      (''visibility'', \<lambda>v. visibility_only_Project\<lparr>Path := Path v\<rparr>)]"

definition ex_toml_Decode :: "string \<Rightarrow> Project \<Rightarrow> error + Project" where
  "ex_toml_Decode data v =
     (case map_of ex_documents data of
        None \<Rightarrow> Inl (DecodeError ''invalid syntax'')
      | Some assign \<Rightarrow> Inr (assign v))"

definition ex_snapshot :: "Project list" where
  "ex_snapshot = [set_ID ''alpha'' zero_Project, set_ID ''beta'' zero_Project,
                  set_ID ''gamma'' zero_Project, set_ID ''delta'' zero_Project]"

definition ex_records :: "string \<rightharpoonup> AccessRecord" where
  "ex_records =
     [''alpha'' \<mapsto> \<lparr>ProjectID = ''alpha'', ProjectPath = ''/home/u/projects/alpha'',
                     LastAccessed = 100\<rparr>,
      ''beta'' \<mapsto> \<lparr>ProjectID = ''beta'', ProjectPath = ''/home/u/projects/beta'',
                    LastAccessed = 200\<rparr>,
      ''gamma'' \<mapsto> \<lparr>ProjectID = ''gamma'', ProjectPath = ''/home/u/projects/gamma'',
                     LastAccessed = 300\<rparr>]"

text \<open>
  The insertion sort that \<open>sort.Slice\<close> runs on a slice of at most twelve elements
  (\<open>insertionSortLessFunc\<close> of the Go standard library): each element in turn is swapped
  towards the front while it is less than its predecessor. \<open>sink\<close> works on the prefix
  already sorted, held in reverse.
\<close>

fun sink :: "('a \<Rightarrow> 'a \<Rightarrow> bool) \<Rightarrow> 'a \<Rightarrow> 'a list \<Rightarrow> 'a list" where
  "sink lt x [] = [x]"
| "sink lt x (y # ys) = (if lt x y then y # sink lt x ys else x # y # ys)"

definition insertionSort :: "('a \<Rightarrow> 'a \<Rightarrow> bool) \<Rightarrow> 'a list \<Rightarrow> 'a list" where
  "insertionSort lt xs = rev (foldl (\<lambda>prefix x. sink lt x prefix) [] xs)"

definition ex_lib :: lib where
  "ex_lib =
     \<lparr>filepath_Dir = ex_Dir,
      filepath_Join = ex_Join,
      toml_Decode = ex_toml_Decode,
      json_Unmarshal_projects =
        (\<lambda>data. if data = ''snapshot'' then Inr ex_snapshot
                 else Inl (DecodeError ''invalid character'')),
      json_MarshalIndent_projects = (\<lambda>projects. Inr ''snapshot''),
      json_Unmarshal_records =
        (\<lambda>data. if data = ''records'' then Inr ex_records
                 else Inl (DecodeError ''invalid character'')),
      sort_Slice = insertionSort\<rparr>"

text \<open>
  A home directory with four project directories under \<open>projects\<close>, one of them with a
  descriptor of invalid syntax, one project under \<open>archive\<close>, a snapshot written one
  minute ago and a file of access records.
\<close>

definition ex_projects_tree :: fsnode where
  "ex_projects_tree =
     Dir ''projects''
       [Entry (Dir ''alpha'' [Entry (File ''.project.toml''), Entry (File ''README.md'')]),
        Entry (Dir ''beta'' [Entry (File ''.project.toml'')]),
        Entry (Dir ''broken'' [Entry (File ''.project.toml'')]),
        Entry (Dir ''gamma'' [Entry (File ''.project.toml'')])]"

definition ex_archive_tree :: fsnode where
  "ex_archive_tree = Dir ''archive'' [Entry (Dir ''old'' [Entry (File ''.project.toml'')])]"

definition ex_files :: "string \<Rightarrow> file_state" where
  "ex_files name =
     (case map_of
        [(''/home/u/projects/alpha/.project.toml'', Present ''alpha'' 0),
         (''/home/u/projects/beta/.project.toml'', Present ''beta'' 0),
         (''/home/u/projects/broken/.project.toml'', Present ''[project'' 0),
         (''/home/u/projects/gamma/.project.toml'', Present ''gamma'' 0),
         (''/home/u/archive/old/.project.toml'', Present ''conflict'' 0),
         (''/home/u/visibility/.project.toml'', Present ''visibility'' 0),
         (''/home/u/.cache/pk/projects.json'', Present ''snapshot'' 940000000000),
         (''/home/u/.cache/pk/access.json'', Present ''records'' 0)] name of
        None \<Rightarrow> Absent
      | Some f \<Rightarrow> f)"

definition ex_world :: world where
  "ex_world =
     \<lparr>os_UserHomeDir = Inr ''/home/u'',
      os_MkdirAll = (\<lambda>dir. None),
      roots = (\<lambda>root. if root = ''/home/u/projects'' then Exists (Entry ex_projects_tree)
                       else if root = ''/home/u/archive'' then Exists (Entry ex_archive_tree)
                       else NotExists),
      files = ex_files,
      time_Now = 1000000000000\<rparr>"

text \<open>The entities that a scan of \<open>projects\<close> is expected to produce.\<close>

definition ex_entities :: "Project list" where
  "ex_entities =
     [migrateSchema ((set_ID ''alpha'' (zero_Project\<lparr>Path := ''/home/u/projects/alpha''\<rparr>))
        \<lparr>LegacyOwnership := (LegacyOwnership zero_Project)
           \<lparr>LegacyOwnership_Primary := ''acme'', LegacyOwnership_Visibility := ''private''\<rparr>\<rparr>),
      migrateSchema (set_ID ''beta'' (zero_Project\<lparr>Path := ''/home/u/projects/beta''\<rparr>)),
      migrateSchema (set_ID ''gamma'' (zero_Project\<lparr>Path := ''/home/u/projects/gamma''\<rparr>))]"

text \<open>The same state with the snapshot ten minutes old, with no snapshot, and with a
  snapshot that is not JSON.\<close>

definition ex_world_stale :: world where
  "ex_world_stale = ex_world\<lparr>time_Now := 1540000000000\<rparr>"

definition ex_world_absent :: world where
  "ex_world_absent =
     ex_world\<lparr>files := (files ex_world)(''/home/u/.cache/pk/projects.json'' := Absent)\<rparr>"

definition ex_world_corrupt :: world where
  "ex_world_corrupt =
     ex_world\<lparr>files := (files ex_world)
       (''/home/u/.cache/pk/projects.json'' := Present ''[{'' 940000000000)\<rparr>"

text \<open>The same state with a subdirectory of \<open>projects\<close> that cannot be read.\<close>

definition ex_world_locked :: world where
  "ex_world_locked =
     ex_world\<lparr>roots := (roots ex_world)
       (''/home/u/projects'' :=
          Exists (Entry (Dir ''projects''
            [Entry (Dir ''alpha'' [Entry (File ''.project.toml'')]),
             Entry (DirUnreadable ''locked'' ErrPermission),
             Entry (Dir ''gamma'' [Entry (File ''.project.toml'')])])))\<rparr>"

section \<open>Properties of the migration\<close>

subsection \<open>The three blocks and the whole migration in closed form\<close>

lemma migrateOwnership_eq:
  "migrateOwnership p =
     p\<lparr>Consultant := (Consultant p)
          \<lparr>Consultant_Ownership := LegacyOwnership_Primary (LegacyOwnership p),
           Consultant_LicenseModel := LegacyOwnership_LicenseModel (LegacyOwnership p),
           Consultant_Partner := (case LegacyOwnership_Partners (LegacyOwnership p) of
                                    [] \<Rightarrow> Consultant_Partner (Consultant p) | x # _ \<Rightarrow> x)\<rparr>,
        DataKai := (DataKai p)
          \<lparr>DataKai_Visibility := (if LegacyOwnership_Visibility (LegacyOwnership p) \<noteq> ''''
                                   then LegacyOwnership_Visibility (LegacyOwnership p)
                                   else DataKai_Visibility (DataKai p))\<rparr>\<rparr>"
  by (simp add: migrateOwnership_def Let_def split: list.splits)

lemma migrateClient_eq:
  "migrateClient p =
     p\<lparr>Consultant := (Consultant p)
          \<lparr>Consultant_ClientName := LegacyClient_EndClient (LegacyClient p),
           Consultant_MyRole := LegacyClient_MyRole (LegacyClient p),
           Consultant_Partner := (if LegacyClient_Intermediary (LegacyClient p) \<noteq> ''''
                                  then LegacyClient_Intermediary (LegacyClient p)
                                  else Consultant_Partner (Consultant p)),
           Consultant_ClientType := (if LegacyClient_Intermediary (LegacyClient p) \<noteq> ''''
                                     then ''partner''
                                     else if LegacyClient_EndClient (LegacyClient p) \<noteq> ''''
                                     then ''direct'' else Consultant_ClientType (Consultant p))\<rparr>\<rparr>"
  by (simp add: migrateClient_def Let_def)

lemma migrateLinks_eq:
  "migrateLinks p =
     p\<lparr>DataKai := (DataKai p)
          \<lparr>DataKai_ScriptoriumProject := (if Links_ScriptoriumProject (Links p) \<noteq> ''''
              then Links_ScriptoriumProject (Links p) else DataKai_ScriptoriumProject (DataKai p)),
           DataKai_ConduitGraph := (if Links_ConduitGraph (Links p) \<noteq> ''''
              then Links_ConduitGraph (Links p) else DataKai_ConduitGraph (DataKai p))\<rparr>,
        migrated := (migrated p \<or> Links_ScriptoriumProject (Links p) \<noteq> '''' \<or>
                     Links_ConduitGraph (Links p) \<noteq> '''')\<rparr>"
  by (simp add: migrateLinks_def Let_def)

lemma migrateSchema_eq:
  "migrateSchema p =
     p\<lparr>Consultant := (Consultant p)
          \<lparr>Consultant_Ownership :=
             (if LegacyOwnership_Primary (LegacyOwnership p) \<noteq> ''''
              then LegacyOwnership_Primary (LegacyOwnership p)
              else Consultant_Ownership (Consultant p)),
           Consultant_LicenseModel :=
             (if LegacyOwnership_Primary (LegacyOwnership p) \<noteq> ''''
              then LegacyOwnership_LicenseModel (LegacyOwnership p)
              else Consultant_LicenseModel (Consultant p)),
           Consultant_Partner :=
             (if LegacyClient_Intermediary (LegacyClient p) \<noteq> ''''
              then LegacyClient_Intermediary (LegacyClient p)
              else if LegacyOwnership_Primary (LegacyOwnership p) \<noteq> ''''
              then (case LegacyOwnership_Partners (LegacyOwnership p) of
                      [] \<Rightarrow> Consultant_Partner (Consultant p) | x # _ \<Rightarrow> x)
              else Consultant_Partner (Consultant p)),
           Consultant_ClientName :=
             (if LegacyClient_EndClient (LegacyClient p) \<noteq> '''' \<or>
                 LegacyClient_Intermediary (LegacyClient p) \<noteq> ''''
              then LegacyClient_EndClient (LegacyClient p)
              else Consultant_ClientName (Consultant p)),
           Consultant_MyRole :=
             (if LegacyClient_EndClient (LegacyClient p) \<noteq> '''' \<or>
                 LegacyClient_Intermediary (LegacyClient p) \<noteq> ''''
              then LegacyClient_MyRole (LegacyClient p)
              else Consultant_MyRole (Consultant p)),
           Consultant_ClientType :=
             (if LegacyClient_Intermediary (LegacyClient p) \<noteq> '''' then ''partner''
              else if LegacyClient_EndClient (LegacyClient p) \<noteq> '''' then ''direct''
              else Consultant_ClientType (Consultant p))\<rparr>,
        DataKai := (DataKai p)
          \<lparr>DataKai_Visibility :=
             (if LegacyOwnership_Primary (LegacyOwnership p) \<noteq> '''' \<and>
                 LegacyOwnership_Visibility (LegacyOwnership p) \<noteq> ''''
              then LegacyOwnership_Visibility (LegacyOwnership p)
              else DataKai_Visibility (DataKai p)),
           DataKai_ScriptoriumProject :=
             (if Links_ScriptoriumProject (Links p) \<noteq> ''''
              then Links_ScriptoriumProject (Links p)
              else DataKai_ScriptoriumProject (DataKai p)),
           DataKai_ConduitGraph :=
             (if Links_ConduitGraph (Links p) \<noteq> ''''
              then Links_ConduitGraph (Links p)
              else DataKai_ConduitGraph (DataKai p))\<rparr>,
        migrated :=
          (migrated p \<or> LegacyOwnership_Primary (LegacyOwnership p) \<noteq> '''' \<or>
           LegacyClient_EndClient (LegacyClient p) \<noteq> '''' \<or>
           LegacyClient_Intermediary (LegacyClient p) \<noteq> '''' \<or>
           Links_ScriptoriumProject (Links p) \<noteq> '''' \<or>
           Links_ConduitGraph (Links p) \<noteq> '''')\<rparr>"
proof (cases "LegacyOwnership_Primary (LegacyOwnership p) = ''''")
  case noOwner: True
  show ?thesis
  proof (cases "LegacyClient_Intermediary (LegacyClient p) = ''''")
    case noIntermediary: True
    show ?thesis
    proof (cases "LegacyClient_EndClient (LegacyClient p) = ''''")
      case True
      with noOwner noIntermediary show ?thesis
        by (simp add: migrateSchema_def migrateLinks_eq)
    next
      case False
      with noOwner noIntermediary show ?thesis
        by (simp add: migrateSchema_def migrateLinks_eq migrateClient_eq)
    qed
  next
    case False
    with noOwner show ?thesis
      by (simp add: migrateSchema_def migrateLinks_eq migrateClient_eq)
  qed
next
  case owner: False
  show ?thesis
  proof (cases "LegacyClient_Intermediary (LegacyClient p) = ''''")
    case noIntermediary: True
    show ?thesis
    proof (cases "LegacyClient_EndClient (LegacyClient p) = ''''")
      case True
      with owner noIntermediary show ?thesis
        by (simp add: migrateSchema_def migrateLinks_eq migrateOwnership_eq split: list.splits)
    next
      case False
      with owner noIntermediary show ?thesis
        by (simp add: migrateSchema_def migrateLinks_eq migrateClient_eq migrateOwnership_eq
            split: list.splits)
    qed
  next
    case False
    with owner show ?thesis
      by (simp add: migrateSchema_def migrateLinks_eq migrateClient_eq migrateOwnership_eq
          split: list.splits)
  qed
qed

text \<open>Migration writes the two extension sections and the flag, nothing else.\<close>

lemma migrateSchema_unchanged:
  "Path (migrateSchema p) = Path p"
  "ProjectInfo (migrateSchema p) = ProjectInfo p"
  "Tech (migrateSchema p) = Tech p"
  "Dates (migrateSchema p) = Dates p"
  "Links (migrateSchema p) = Links p"
  "Notes (migrateSchema p) = Notes p"
  "Tmux (migrateSchema p) = Tmux p"
  "Context (migrateSchema p) = Context p"
  "LegacyOwnership (migrateSchema p) = LegacyOwnership p"
  "LegacyClient (migrateSchema p) = LegacyClient p"
  "Project.more (migrateSchema p) = Project.more p"
  by (simp_all add: migrateSchema_eq)

lemma migrateSchema_Consultant_Ownership:
  "Consultant_Ownership (Consultant (migrateSchema p)) =
     (if LegacyOwnership_Primary (LegacyOwnership p) \<noteq> ''''
      then LegacyOwnership_Primary (LegacyOwnership p)
      else Consultant_Ownership (Consultant p))"
  by (simp add: migrateSchema_eq)

lemma migrateSchema_Consultant_LicenseModel:
  "Consultant_LicenseModel (Consultant (migrateSchema p)) =
     (if LegacyOwnership_Primary (LegacyOwnership p) \<noteq> ''''
      then LegacyOwnership_LicenseModel (LegacyOwnership p)
      else Consultant_LicenseModel (Consultant p))"
  by (simp add: migrateSchema_eq)

lemma migrateSchema_Consultant_ClientName:
  "Consultant_ClientName (Consultant (migrateSchema p)) =
     (if LegacyClient_EndClient (LegacyClient p) \<noteq> '''' \<or>
         LegacyClient_Intermediary (LegacyClient p) \<noteq> ''''
      then LegacyClient_EndClient (LegacyClient p)
      else Consultant_ClientName (Consultant p))"
  by (simp add: migrateSchema_eq)

lemma migrateSchema_Consultant_MyRole:
  "Consultant_MyRole (Consultant (migrateSchema p)) =
     (if LegacyClient_EndClient (LegacyClient p) \<noteq> '''' \<or>
         LegacyClient_Intermediary (LegacyClient p) \<noteq> ''''
      then LegacyClient_MyRole (LegacyClient p)
      else Consultant_MyRole (Consultant p))"
  by (simp add: migrateSchema_eq)

lemma migrateSchema_DataKai_Visibility:
  "DataKai_Visibility (DataKai (migrateSchema p)) =
     (if LegacyOwnership_Primary (LegacyOwnership p) \<noteq> '''' \<and>
         LegacyOwnership_Visibility (LegacyOwnership p) \<noteq> ''''
      then LegacyOwnership_Visibility (LegacyOwnership p)
      else DataKai_Visibility (DataKai p))"
  by (simp add: migrateSchema_eq)

subsection \<open>Which value wins\<close>

text \<open>
  C1 (as the specification states it, refuted). The specification says that a
  descriptor holding both a new-schema value and a non-empty legacy value is normalized
  to the new-schema value. In \<open>conflict_Project\<close> the new-schema owner, visibility and
  client name are set, and so are the legacy ones; after migration each of the three
  canonical fields differs from the new-schema value of the descriptor.
\<close>

theorem migrateSchema_prefers_new_counterexample:
  "Consultant_Ownership (Consultant conflict_Project) \<noteq> '''' \<and>
   LegacyOwnership_Primary (LegacyOwnership conflict_Project) \<noteq> '''' \<and>
   Consultant_Ownership (Consultant (migrateSchema conflict_Project)) \<noteq>
     Consultant_Ownership (Consultant conflict_Project) \<and>
   DataKai_Visibility (DataKai conflict_Project) \<noteq> '''' \<and>
   LegacyOwnership_Visibility (LegacyOwnership conflict_Project) \<noteq> '''' \<and>
   DataKai_Visibility (DataKai (migrateSchema conflict_Project)) \<noteq>
     DataKai_Visibility (DataKai conflict_Project) \<and>
   Consultant_ClientName (Consultant conflict_Project) \<noteq> '''' \<and>
   LegacyClient_EndClient (LegacyClient conflict_Project) \<noteq> '''' \<and>
   Consultant_ClientName (Consultant (migrateSchema conflict_Project)) \<noteq>
     Consultant_ClientName (Consultant conflict_Project)"
  by (simp add: migrateSchema_Consultant_Ownership migrateSchema_DataKai_Visibility
      migrateSchema_Consultant_ClientName conflict_Project_def zero_Project_def)

text \<open>
  C1 (amended). For every descriptor in which both a new-schema field and its legacy
  field are non-empty, the normalized entity carries the legacy value: the owner is the
  legacy primary owner, the client name is the legacy end client, and the visibility is
  the legacy visibility provided the legacy section also names a primary owner.
\<close>

theorem migrateSchema_prefers_legacy:
  "(Consultant_Ownership (Consultant p) \<noteq> '''' \<and>
    LegacyOwnership_Primary (LegacyOwnership p) \<noteq> '''' \<longrightarrow>
      Consultant_Ownership (Consultant (migrateSchema p)) =
        LegacyOwnership_Primary (LegacyOwnership p)) \<and>
   (DataKai_Visibility (DataKai p) \<noteq> '''' \<and>
    LegacyOwnership_Visibility (LegacyOwnership p) \<noteq> '''' \<and>
    LegacyOwnership_Primary (LegacyOwnership p) \<noteq> '''' \<longrightarrow>
      DataKai_Visibility (DataKai (migrateSchema p)) =
        LegacyOwnership_Visibility (LegacyOwnership p)) \<and>
   (Consultant_ClientName (Consultant p) \<noteq> '''' \<and>
    LegacyClient_EndClient (LegacyClient p) \<noteq> '''' \<longrightarrow>
      Consultant_ClientName (Consultant (migrateSchema p)) =
        LegacyClient_EndClient (LegacyClient p))"
  by (simp add: migrateSchema_Consultant_Ownership migrateSchema_DataKai_Visibility
      migrateSchema_Consultant_ClientName)

theorem migrateSchema_prefers_legacy_witness:
  "Consultant_Ownership (Consultant conflict_Project) \<noteq> '''' \<and>
   LegacyOwnership_Primary (LegacyOwnership conflict_Project) \<noteq> '''' \<and>
   DataKai_Visibility (DataKai conflict_Project) \<noteq> '''' \<and>
   LegacyOwnership_Visibility (LegacyOwnership conflict_Project) \<noteq> '''' \<and>
   Consultant_ClientName (Consultant conflict_Project) \<noteq> '''' \<and>
   LegacyClient_EndClient (LegacyClient conflict_Project) \<noteq> '''' \<and>
   Consultant_Ownership (Consultant (migrateSchema conflict_Project)) = ''acme'' \<and>
   DataKai_Visibility (DataKai (migrateSchema conflict_Project)) = ''private'' \<and>
   Consultant_ClientName (Consultant (migrateSchema conflict_Project)) = ''Acme Corp''"
  using migrateSchema_prefers_legacy [of conflict_Project]
  by (simp add: conflict_Project_def zero_Project_def)

subsection \<open>Canonical fields and empty legacy values\<close>

text \<open>
  C2 (as the specification states it, refuted). In \<open>partial_legacy_Project\<close> the
  canonical license model, client name and role are non-empty and the corresponding
  legacy fields are empty, yet migration empties all three: the legacy sections are
  present (an owner, an intermediary), and their fields are copied without looking at
  them.
\<close>

theorem migrateSchema_keeps_canonical_counterexample:
  "Consultant_LicenseModel (Consultant partial_legacy_Project) \<noteq> '''' \<and>
   LegacyOwnership_LicenseModel (LegacyOwnership partial_legacy_Project) = '''' \<and>
   Consultant_LicenseModel (Consultant (migrateSchema partial_legacy_Project)) \<noteq>
     Consultant_LicenseModel (Consultant partial_legacy_Project) \<and>
   Consultant_ClientName (Consultant partial_legacy_Project) \<noteq> '''' \<and>
   LegacyClient_EndClient (LegacyClient partial_legacy_Project) = '''' \<and>
   Consultant_ClientName (Consultant (migrateSchema partial_legacy_Project)) \<noteq>
     Consultant_ClientName (Consultant partial_legacy_Project) \<and>
   Consultant_MyRole (Consultant partial_legacy_Project) \<noteq> '''' \<and>
   LegacyClient_MyRole (LegacyClient partial_legacy_Project) = '''' \<and>
   Consultant_MyRole (Consultant (migrateSchema partial_legacy_Project)) \<noteq>
     Consultant_MyRole (Consultant partial_legacy_Project)"
  by (simp add: migrateSchema_Consultant_LicenseModel migrateSchema_Consultant_ClientName
      migrateSchema_Consultant_MyRole partial_legacy_Project_def zero_Project_def)

text \<open>
  C2 (amended). A non-empty canonical field whose legacy field is empty is unchanged
  by migration when the legacy section that feeds it is absent altogether: the license
  model when the legacy section names no primary owner, the client name and the role
  when the legacy client section has neither an end client nor an intermediary.
\<close>

theorem migrateSchema_keeps_canonical:
  "(Consultant_LicenseModel (Consultant p) \<noteq> '''' \<and>
    LegacyOwnership_LicenseModel (LegacyOwnership p) = '''' \<and>
    LegacyOwnership_Primary (LegacyOwnership p) = '''' \<longrightarrow>
      Consultant_LicenseModel (Consultant (migrateSchema p)) =
        Consultant_LicenseModel (Consultant p)) \<and>
   (Consultant_ClientName (Consultant p) \<noteq> '''' \<and>
    LegacyClient_EndClient (LegacyClient p) = '''' \<and>
    LegacyClient_Intermediary (LegacyClient p) = '''' \<longrightarrow>
      Consultant_ClientName (Consultant (migrateSchema p)) =
        Consultant_ClientName (Consultant p)) \<and>
   (Consultant_MyRole (Consultant p) \<noteq> '''' \<and>
    LegacyClient_MyRole (LegacyClient p) = '''' \<and>
    LegacyClient_EndClient (LegacyClient p) = '''' \<and>
    LegacyClient_Intermediary (LegacyClient p) = '''' \<longrightarrow>
      Consultant_MyRole (Consultant (migrateSchema p)) = Consultant_MyRole (Consultant p))"
  by (simp add: migrateSchema_Consultant_LicenseModel migrateSchema_Consultant_ClientName
      migrateSchema_Consultant_MyRole)

theorem migrateSchema_keeps_canonical_witness:
  "Consultant_LicenseModel (Consultant new_only_Project) \<noteq> '''' \<and>
   LegacyOwnership_LicenseModel (LegacyOwnership new_only_Project) = '''' \<and>
   LegacyOwnership_Primary (LegacyOwnership new_only_Project) = '''' \<and>
   Consultant_ClientName (Consultant new_only_Project) \<noteq> '''' \<and>
   Consultant_MyRole (Consultant new_only_Project) \<noteq> '''' \<and>
   LegacyClient_MyRole (LegacyClient new_only_Project) = '''' \<and>
   LegacyClient_EndClient (LegacyClient new_only_Project) = '''' \<and>
   LegacyClient_Intermediary (LegacyClient new_only_Project) = '''' \<and>
   Consultant_LicenseModel (Consultant (migrateSchema new_only_Project)) = ''proprietary'' \<and>
   Consultant_ClientName (Consultant (migrateSchema new_only_Project)) = ''Initech'' \<and>
   Consultant_MyRole (Consultant (migrateSchema new_only_Project)) = ''lead''"
  using migrateSchema_keeps_canonical [of new_only_Project]
  by (simp add: new_only_Project_def zero_Project_def)

subsection \<open>Idempotence\<close>

text \<open>
  C5. Migration is idempotent: running \<open>migrateSchema\<close> on an entity and then a second
  time on the result yields the same entity as running it once.
\<close>

theorem migrateSchema_idempotent: "migrateSchema (migrateSchema p) = migrateSchema p"
proof (rule Project.equality)
  show "Consultant (migrateSchema (migrateSchema p)) = Consultant (migrateSchema p)"
    by (subst migrateSchema_eq [of "migrateSchema p"])
      (simp add: migrateSchema_unchanged, simp add: migrateSchema_eq split: list.splits)
  show "DataKai (migrateSchema (migrateSchema p)) = DataKai (migrateSchema p)"
    by (subst migrateSchema_eq [of "migrateSchema p"])
      (simp add: migrateSchema_unchanged, simp add: migrateSchema_eq)
  show "migrated (migrateSchema (migrateSchema p)) = migrated (migrateSchema p)"
    by (subst migrateSchema_eq [of "migrateSchema p"])
      (simp add: migrateSchema_unchanged, simp add: migrateSchema_eq)
qed (simp_all add: migrateSchema_unchanged)

theorem migrateSchema_idempotent_witness:
  "migrateSchema (migrateSchema conflict_Project) = migrateSchema conflict_Project \<and>
   Consultant_Ownership (Consultant (migrateSchema (migrateSchema conflict_Project))) = ''acme''"
  unfolding migrateSchema_idempotent
  by (simp add: migrateSchema_Consultant_Ownership conflict_Project_def zero_Project_def)

section \<open>Properties of loading\<close>

text \<open>
  A descriptor is what the decoder stores into the zero struct whose \<open>Path\<close> is set; the
  loaded entity is its migration.
\<close>

lemma LoadProject_decoded:
  "toml_DecodeFile l w path (zero_Project\<lparr>Path := filepath_Dir l path\<rparr>) = Inr raw \<Longrightarrow>
     LoadProject l w path = Inr (migrateSchema raw)"
  by (simp add: LoadProject_def)

lemma GetOwner_migrateSchema:
  "GetOwner (migrateSchema p) =
     (if LegacyOwnership_Primary (LegacyOwnership p) \<noteq> ''''
      then LegacyOwnership_Primary (LegacyOwnership p)
      else Consultant_Ownership (Consultant p))"
  by (simp add: GetOwner_def migrateSchema_Consultant_Ownership migrateSchema_unchanged)

lemmas ex_load_defs =
  LoadProject_def toml_DecodeFile_def os_ReadFile_def ex_files_def ex_toml_Decode_def
  ex_documents_def ex_lib_def ex_world_def

lemma ex_decode_conflict:
  "toml_DecodeFile ex_lib ex_world ''/home/u/archive/old/.project.toml''
     (zero_Project\<lparr>Path := filepath_Dir ex_lib ''/home/u/archive/old/.project.toml''\<rparr>) =
   Inr (conflict_Project\<lparr>Path := ''/home/u/archive/old''\<rparr>)"
  by (simp add: ex_load_defs ex_Dir_def)

lemma ex_decode_alpha:
  "toml_DecodeFile ex_lib ex_world ''/home/u/projects/alpha/.project.toml''
     (zero_Project\<lparr>Path := filepath_Dir ex_lib ''/home/u/projects/alpha/.project.toml''\<rparr>) =
   Inr ((set_ID ''alpha'' zero_Project)
          \<lparr>Path := ''/home/u/projects/alpha'',
           LegacyOwnership := (LegacyOwnership zero_Project)
             \<lparr>LegacyOwnership_Primary := ''acme'', LegacyOwnership_Visibility := ''private''\<rparr>\<rparr>)"
  by (simp add: ex_load_defs ex_Dir_def set_ID_def)

lemma ex_decode_visibility:
  "toml_DecodeFile ex_lib ex_world ''/home/u/visibility/.project.toml''
     (zero_Project\<lparr>Path := filepath_Dir ex_lib ''/home/u/visibility/.project.toml''\<rparr>) =
   Inr (visibility_only_Project\<lparr>Path := ''/home/u/visibility''\<rparr>)"
  by (simp add: ex_load_defs ex_Dir_def)

subsection \<open>The owner of a loaded entity\<close>

text \<open>
  C3 (as the specification states it, refuted). The specification says that \<open>GetOwner\<close>
  on a loaded entity returns the new-schema owner when the descriptor has both. The
  descriptor under \<open>archive/old\<close> has the new-schema owner \<open>datakai\<close> and the legacy
  owner \<open>acme\<close>; \<open>GetOwner\<close> on the loaded entity returns \<open>acme\<close>.
\<close>

theorem GetOwner_loaded_counterexample:
  "toml_DecodeFile ex_lib ex_world ''/home/u/archive/old/.project.toml''
     (zero_Project\<lparr>Path := filepath_Dir ex_lib ''/home/u/archive/old/.project.toml''\<rparr>) =
     Inr (conflict_Project\<lparr>Path := ''/home/u/archive/old''\<rparr>) \<and>
   Consultant_Ownership (Consultant conflict_Project) = ''datakai'' \<and>
   LegacyOwnership_Primary (LegacyOwnership conflict_Project) = ''acme'' \<and>
   map_sum id GetOwner (LoadProject ex_lib ex_world ''/home/u/archive/old/.project.toml'') =
     Inr ''acme''"
  by (simp add: ex_decode_conflict LoadProject_decoded [OF ex_decode_conflict]
      GetOwner_migrateSchema) (simp add: conflict_Project_def zero_Project_def)

text \<open>
  C3 (amended). For every loaded project entity, \<open>GetOwner\<close> returns the legacy
  \<open>ownership.primary\<close> value when both new-schema and legacy ownership are present in
  the descriptor (migration has stored it in \<open>Consultant.Ownership\<close>), returns the legacy
  value when only legacy ownership is present, and returns the empty string when neither
  is present.
\<close>

theorem GetOwner_loaded:
  assumes "toml_DecodeFile l w path (zero_Project\<lparr>Path := filepath_Dir l path\<rparr>) = Inr raw"
  shows "LoadProject l w path = Inr (migrateSchema raw) \<and>
         (Consultant_Ownership (Consultant raw) \<noteq> '''' \<and>
          LegacyOwnership_Primary (LegacyOwnership raw) \<noteq> '''' \<longrightarrow>
            GetOwner (migrateSchema raw) = LegacyOwnership_Primary (LegacyOwnership raw)) \<and>
         (Consultant_Ownership (Consultant raw) = '''' \<and>
          LegacyOwnership_Primary (LegacyOwnership raw) \<noteq> '''' \<longrightarrow>
            GetOwner (migrateSchema raw) = LegacyOwnership_Primary (LegacyOwnership raw)) \<and>
         (Consultant_Ownership (Consultant raw) = '''' \<and>
          LegacyOwnership_Primary (LegacyOwnership raw) = '''' \<longrightarrow>
            GetOwner (migrateSchema raw) = '''')"
  using assms by (simp add: LoadProject_decoded GetOwner_migrateSchema)

theorem GetOwner_loaded_witness:
  "LoadProject ex_lib ex_world ''/home/u/archive/old/.project.toml'' =
     Inr (migrateSchema (conflict_Project\<lparr>Path := ''/home/u/archive/old''\<rparr>)) \<and>
   Consultant_Ownership (Consultant conflict_Project) \<noteq> '''' \<and>
   LegacyOwnership_Primary (LegacyOwnership conflict_Project) \<noteq> '''' \<and>
   GetOwner (migrateSchema (conflict_Project\<lparr>Path := ''/home/u/archive/old''\<rparr>)) = ''acme''"
  using GetOwner_loaded [OF ex_decode_conflict]
  by (simp add: conflict_Project_def zero_Project_def)

subsection \<open>The visibility of a loaded entity\<close>

text \<open>
  C4 (as the specification states it, refuted). The specification says that every
  descriptor with a non-empty legacy visibility is normalized to that visibility. The
  descriptor under \<open>visibility\<close> has the legacy visibility \<open>private\<close> and no legacy
  primary owner; the loaded entity has an empty \<open>DataKai.Visibility\<close>, because the
  ownership block of the migration runs only when the primary owner is non-empty.
\<close>

theorem LoadProject_visibility_counterexample:
  "toml_DecodeFile ex_lib ex_world ''/home/u/visibility/.project.toml''
     (zero_Project\<lparr>Path := filepath_Dir ex_lib ''/home/u/visibility/.project.toml''\<rparr>) =
     Inr (visibility_only_Project\<lparr>Path := ''/home/u/visibility''\<rparr>) \<and>
   LegacyOwnership_Visibility (LegacyOwnership visibility_only_Project) = ''private'' \<and>
   map_sum id (\<lambda>e. DataKai_Visibility (DataKai e))
     (LoadProject ex_lib ex_world ''/home/u/visibility/.project.toml'') = Inr ''''"
  by (simp add: ex_decode_visibility LoadProject_decoded [OF ex_decode_visibility]
      migrateSchema_DataKai_Visibility) (simp add: visibility_only_Project_def zero_Project_def)

text \<open>
  C4 (amended). For every descriptor whose legacy ownership section has a non-empty
  primary owner and a non-empty visibility, the \<open>DataKai.Visibility\<close> of the loaded entity
  equals that legacy visibility. In particular a descriptor with only the project id
  \<open>alpha\<close>, the legacy owner \<open>acme\<close> and the legacy visibility \<open>private\<close> loads with
  \<open>Consultant.Ownership = acme\<close>, \<open>DataKai.Visibility = private\<close> and an empty
  \<open>Links.ScriptoriumProject\<close> (the witness).
\<close>

theorem LoadProject_visibility:
  assumes "toml_DecodeFile l w path (zero_Project\<lparr>Path := filepath_Dir l path\<rparr>) = Inr raw"
  shows "LoadProject l w path = Inr (migrateSchema raw) \<and>
         (LegacyOwnership_Primary (LegacyOwnership raw) \<noteq> '''' \<and>
          LegacyOwnership_Visibility (LegacyOwnership raw) \<noteq> '''' \<longrightarrow>
            DataKai_Visibility (DataKai (migrateSchema raw)) =
              LegacyOwnership_Visibility (LegacyOwnership raw))"
  using assms by (simp add: LoadProject_decoded migrateSchema_DataKai_Visibility)

theorem LoadProject_visibility_witness:
  "map_sum id (\<lambda>e. (ProjectInfo_ID (ProjectInfo e), Consultant_Ownership (Consultant e),
                    DataKai_Visibility (DataKai e), Links_ScriptoriumProject (Links e)))
     (LoadProject ex_lib ex_world ''/home/u/projects/alpha/.project.toml'') =
   Inr (''alpha'', ''acme'', ''private'', '''')"
  using LoadProject_visibility [OF ex_decode_alpha]
  by (simp add: migrateSchema_Consultant_Ownership migrateSchema_unchanged
      set_ID_def zero_Project_def)

section \<open>Properties of the discovery\<close>

lemma loaded_append: "loaded l w (xs @ ys) = loaded l w xs @ loaded l w ys"
  by (induction xs) (auto split: sum.splits)

text \<open>
  The walk function on an entry without error appends the entity when the entry is a
  descriptor that loads, and never returns an error; on an entry with an error it
  returns that error.
\<close>

lemma walkFn_ok:
  "FindProjects_walkFn l w path (Some i) None ps =
     (None, ps @ loaded l w (if FileInfo_Name i = ''.project.toml'' then [path] else []))"
  by (simp add: FindProjects_walkFn_def split: sum.splits)

lemma walkFn_err:
  "FindProjects_walkFn l w path info (Some e) ps = (Some e, ps)"
  by (simp add: FindProjects_walkFn_def)

lemma walk_FindProjects:
  "fn = FindProjects_walkFn l w \<Longrightarrow>
     fst (walk l fn path node ps) = map_option PathError (first_error node) \<and>
     (first_error node = None \<longrightarrow>
        snd (walk l fn path node ps) = ps @ loaded l w (descriptors l path node))"
  "fn = FindProjects_walkFn l w \<Longrightarrow>
     fst (walk_names l fn path names ps) = map_option PathError (first_error_names names) \<and>
     (first_error_names names = None \<longrightarrow>
        snd (walk_names l fn path names ps) = ps @ loaded l w (descriptors_names l path names))"
proof (induction l fn path node ps and l fn path names ps rule: walk_walk_names.induct)
  case (1 l walkFn path name s)
  then show ?case by (simp add: walkFn_ok)
next
  case (2 l walkFn path name e s)
  then show ?case by (simp add: walkFn_err)
next
  case (3 l walkFn path name names s)
  then show ?case by (simp add: walkFn_ok loaded_append)
next
  case (4 l walkFn path s)
  then show ?case by simp
next
  case (5 l walkFn path name e rest s)
  then show ?case by (simp add: walkFn_err)
next
  case (6 l walkFn path node rest s)
  then show ?case
    by (auto simp: loaded_append split: prod.splits option.splits)
qed

lemma Walk_FindProjects:
  "fst (Walk l (FindProjects_walkFn l w) root d ps) = map_option PathError (root_error (Exists d))"
  "root_error (Exists d) = None \<Longrightarrow>
     snd (Walk l (FindProjects_walkFn l w) root d ps) =
       ps @ loaded l w (root_descriptors l root (Exists d))"
proof -
  have "fst (Walk l (FindProjects_walkFn l w) root d ps) =
          map_option PathError (root_error (Exists d)) \<and>
        (root_error (Exists d) = None \<longrightarrow>
           snd (Walk l (FindProjects_walkFn l w) root d ps) =
             ps @ loaded l w (root_descriptors l root (Exists d)))"
  proof (cases d)
    case (Entry node)
    obtain r s where ws: "walk l (FindProjects_walkFn l w) root node ps = (r, s)"
      by (cases "walk l (FindProjects_walkFn l w) root node ps")
    from walk_FindProjects(1) [OF refl, of l w root node ps] ws
    have r: "r = map_option PathError (first_error node)"
      and s: "first_error node = None \<longrightarrow> s = ps @ loaded l w (descriptors l root node)"
      by simp_all
    show ?thesis
    proof (cases "first_error node")
      case None
      with Entry ws r s show ?thesis by (simp add: Walk_def)
    next
      case (Some e)
      with Entry ws r show ?thesis by (simp add: Walk_def)
    qed
  next
    case (LstatError name e)
    then show ?thesis by (simp add: Walk_def walkFn_err)
  qed
  then show
    "fst (Walk l (FindProjects_walkFn l w) root d ps) =
       map_option PathError (root_error (Exists d))"
    "root_error (Exists d) = None \<Longrightarrow>
       snd (Walk l (FindProjects_walkFn l w) root d ps) =
         ps @ loaded l w (root_descriptors l root (Exists d))"
    by simp_all
qed

text \<open>
  The whole scan: the error of the first root whose walk fails, or else the entities of
  all descriptors that load, root after root.
\<close>

lemma FindProjects_roots_eq:
  "FindProjects_roots l w rootDirs ps =
     (case first_failing_root w rootDirs of
        Some e \<Rightarrow> Inl (PathError e)
      | None \<Rightarrow> Inr (ps @ loaded l w (all_descriptors l w rootDirs)))"
proof (induction rootDirs arbitrary: ps)
  case Nil
  show ?case by simp
next
  case (Cons root rest)
  show ?case
  proof (cases "roots w root")
    case NotExists
    with Cons show ?thesis by (simp split: option.splits)
  next
    case (Exists d)
    obtain r s where W: "Walk l (FindProjects_walkFn l w) root d ps = (r, s)"
      by (cases "Walk l (FindProjects_walkFn l w) root d ps")
    from Walk_FindProjects(1) [of l w root d ps] W
    have r: "r = map_option PathError (root_error (Exists d))" by simp
    show ?thesis
    proof (cases "root_error (Exists d)")
      case None
      with Walk_FindProjects(2) [of d l w root ps] W
      have "s = ps @ loaded l w (root_descriptors l root (Exists d))" by simp
      with None Exists W r Cons show ?thesis
        by (simp add: loaded_append split: option.splits)
    next
      case (Some e)
      with Exists W r show ?thesis by simp
    qed
  qed
qed

subsection \<open>The example scans\<close>

lemma ex_scan:
  assumes r: "roots w = roots ex_world"
    and f: "\<And>name. name \<noteq> ''/home/u/.cache/pk/projects.json'' \<Longrightarrow> files w name = ex_files name"
  shows "first_failing_root w [''/home/u/projects'', ''/home/u/scratch''] = None"
    and "all_descriptors ex_lib w [''/home/u/projects'', ''/home/u/scratch''] =
           [''/home/u/projects/alpha/.project.toml'', ''/home/u/projects/beta/.project.toml'',
            ''/home/u/projects/broken/.project.toml'', ''/home/u/projects/gamma/.project.toml'']"
    and "LoadProject ex_lib w ''/home/u/projects/broken/.project.toml'' =
           Inl (DecodeError ''invalid syntax'')"
    and "map (\<lambda>p. ProjectInfo_ID (ProjectInfo p))
           (loaded ex_lib w
             [''/home/u/projects/alpha/.project.toml'', ''/home/u/projects/beta/.project.toml'',
              ''/home/u/projects/broken/.project.toml'', ''/home/u/projects/gamma/.project.toml'']) =
         [''alpha'', ''beta'', ''gamma'']"
    and "loaded ex_lib w
           [''/home/u/projects/alpha/.project.toml'', ''/home/u/projects/beta/.project.toml'',
            ''/home/u/projects/broken/.project.toml'', ''/home/u/projects/gamma/.project.toml''] =
         ex_entities"
proof -
  show "first_failing_root w [''/home/u/projects'', ''/home/u/scratch''] = None"
    by (simp add: r ex_world_def ex_projects_tree_def)
  show "all_descriptors ex_lib w [''/home/u/projects'', ''/home/u/scratch''] =
           [''/home/u/projects/alpha/.project.toml'', ''/home/u/projects/beta/.project.toml'',
            ''/home/u/projects/broken/.project.toml'', ''/home/u/projects/gamma/.project.toml'']"
    by (simp add: r ex_world_def ex_projects_tree_def ex_lib_def)
  have a: "os_ReadFile w ''/home/u/projects/alpha/.project.toml'' = Inr ''alpha''"
    and b: "os_ReadFile w ''/home/u/projects/beta/.project.toml'' = Inr ''beta''"
    and c: "os_ReadFile w ''/home/u/projects/broken/.project.toml'' = Inr ''[project''"
    and d: "os_ReadFile w ''/home/u/projects/gamma/.project.toml'' = Inr ''gamma''"
    by (simp_all add: os_ReadFile_def f) (simp_all add: ex_files_def)
  have la: "LoadProject ex_lib w ''/home/u/projects/alpha/.project.toml'' =
      Inr (migrateSchema ((set_ID ''alpha'' (zero_Project\<lparr>Path := ''/home/u/projects/alpha''\<rparr>))
        \<lparr>LegacyOwnership := (LegacyOwnership zero_Project)
           \<lparr>LegacyOwnership_Primary := ''acme'', LegacyOwnership_Visibility := ''private''\<rparr>\<rparr>))"
    by (simp add: LoadProject_def toml_DecodeFile_def a ex_lib_def ex_toml_Decode_def
        ex_documents_def ex_Dir_def set_ID_def)
  have lb: "LoadProject ex_lib w ''/home/u/projects/beta/.project.toml'' =
      Inr (migrateSchema (set_ID ''beta'' (zero_Project\<lparr>Path := ''/home/u/projects/beta''\<rparr>)))"
    by (simp add: LoadProject_def toml_DecodeFile_def b ex_lib_def ex_toml_Decode_def
        ex_documents_def ex_Dir_def)
  have ld: "LoadProject ex_lib w ''/home/u/projects/gamma/.project.toml'' =
      Inr (migrateSchema (set_ID ''gamma'' (zero_Project\<lparr>Path := ''/home/u/projects/gamma''\<rparr>)))"
    by (simp add: LoadProject_def toml_DecodeFile_def d ex_lib_def ex_toml_Decode_def
        ex_documents_def ex_Dir_def)
  show lc: "LoadProject ex_lib w ''/home/u/projects/broken/.project.toml'' =
           Inl (DecodeError ''invalid syntax'')"
    by (simp add: LoadProject_def toml_DecodeFile_def c ex_lib_def ex_toml_Decode_def
        ex_documents_def)
  show "map (\<lambda>p. ProjectInfo_ID (ProjectInfo p))
           (loaded ex_lib w
             [''/home/u/projects/alpha/.project.toml'', ''/home/u/projects/beta/.project.toml'',
              ''/home/u/projects/broken/.project.toml'', ''/home/u/projects/gamma/.project.toml'']) =
         [''alpha'', ''beta'', ''gamma'']"
    by (simp add: la lb lc ld set_ID_def migrateSchema_unchanged)
  show "loaded ex_lib w
           [''/home/u/projects/alpha/.project.toml'', ''/home/u/projects/beta/.project.toml'',
            ''/home/u/projects/broken/.project.toml'', ''/home/u/projects/gamma/.project.toml''] =
         ex_entities"
    by (simp add: la lb lc ld ex_entities_def)
qed

lemma ex_files_elsewhere:
  "name \<noteq> ''/home/u/.cache/pk/projects.json'' \<Longrightarrow> files ex_world name = ex_files name"
  "name \<noteq> ''/home/u/.cache/pk/projects.json'' \<Longrightarrow> files ex_world_corrupt name = ex_files name"
  "name \<noteq> ''/home/u/.cache/pk/projects.json'' \<Longrightarrow> files ex_world_stale name = ex_files name"
  "name \<noteq> ''/home/u/.cache/pk/projects.json'' \<Longrightarrow> files ex_world_absent name = ex_files name"
  by (simp_all add: ex_world_def ex_world_corrupt_def ex_world_stale_def ex_world_absent_def)

lemma ex_roots:
  "roots ex_world_corrupt = roots ex_world"
  "roots ex_world_stale = roots ex_world"
  "roots ex_world_absent = roots ex_world"
  by (simp_all add: ex_world_corrupt_def ex_world_stale_def ex_world_absent_def)

lemma ex_FindProjects:
  assumes r: "roots w = roots ex_world"
    and f: "\<And>name. name \<noteq> ''/home/u/.cache/pk/projects.json'' \<Longrightarrow> files w name = ex_files name"
  shows "FindProjects ex_lib w [''/home/u/projects'', ''/home/u/scratch''] =
           Inr (loaded ex_lib w
             [''/home/u/projects/alpha/.project.toml'', ''/home/u/projects/beta/.project.toml'',
              ''/home/u/projects/broken/.project.toml'', ''/home/u/projects/gamma/.project.toml''])"
    and "map_sum id (map (\<lambda>p. ProjectInfo_ID (ProjectInfo p)))
           (FindProjects ex_lib w [''/home/u/projects'', ''/home/u/scratch'']) =
         Inr [''alpha'', ''beta'', ''gamma'']"
proof -
  note s = ex_scan [of w, OF r f]
  show eq: "FindProjects ex_lib w [''/home/u/projects'', ''/home/u/scratch''] =
           Inr (loaded ex_lib w
             [''/home/u/projects/alpha/.project.toml'', ''/home/u/projects/beta/.project.toml'',
              ''/home/u/projects/broken/.project.toml'', ''/home/u/projects/gamma/.project.toml''])"
    using s(1) s(2)
    by (simp add: FindProjects_def FindProjects_roots_eq
        del: first_failing_root.simps all_descriptors.simps)
  show "map_sum id (map (\<lambda>p. ProjectInfo_ID (ProjectInfo p)))
           (FindProjects ex_lib w [''/home/u/projects'', ''/home/u/scratch'']) =
         Inr [''alpha'', ''beta'', ''gamma'']"
    using s(4) by (simp add: eq del: loaded.simps)
qed

lemma ex_locked:
  "first_failing_root ex_world_locked [''/home/u/archive'', ''/home/u/projects''] =
     Some ErrPermission"
  "first_failing_root ex_world_locked [''/home/u/archive''] = None"
  "all_descriptors ex_lib ex_world_locked [''/home/u/archive''] =
     [''/home/u/archive/old/.project.toml'']"
  by (simp_all add: ex_world_locked_def ex_world_def ex_archive_tree_def ex_lib_def)

subsection \<open>Malformed descriptors\<close>

text \<open>
  C6 (as the specification states it, refuted in its example). The specification's
  example says that one descriptor of invalid syntax among three valid ones yields
  exactly two entities. Under \<open>projects\<close> the example state has the three valid
  descriptors \<open>alpha\<close>, \<open>beta\<close> and \<open>gamma\<close> and the invalid descriptor \<open>broken\<close>; the scan
  returns the three entities of the valid descriptors, not two.
\<close>

theorem FindProjects_one_invalid_counterexample:
  "all_descriptors ex_lib ex_world [''/home/u/projects'', ''/home/u/scratch''] =
     [''/home/u/projects/alpha/.project.toml'', ''/home/u/projects/beta/.project.toml'',
      ''/home/u/projects/broken/.project.toml'', ''/home/u/projects/gamma/.project.toml''] \<and>
   LoadProject ex_lib ex_world ''/home/u/projects/broken/.project.toml'' =
     Inl (DecodeError ''invalid syntax'') \<and>
   map_sum id (map (\<lambda>p. ProjectInfo_ID (ProjectInfo p)))
     (FindProjects ex_lib ex_world [''/home/u/projects'', ''/home/u/scratch'']) =
     Inr [''alpha'', ''beta'', ''gamma''] \<and>
   map_sum id length (FindProjects ex_lib ex_world [''/home/u/projects'', ''/home/u/scratch'']) =
     Inr 3 \<and>
   map_sum id length (FindProjects ex_lib ex_world [''/home/u/projects'', ''/home/u/scratch'']) \<noteq>
     Inr 2"
proof -
  note s = ex_scan [OF refl ex_files_elsewhere(1)]
  note e = ex_FindProjects [OF refl ex_files_elsewhere(1)]
  from s(4) have "length (loaded ex_lib ex_world
            [''/home/u/projects/alpha/.project.toml'', ''/home/u/projects/beta/.project.toml'',
             ''/home/u/projects/broken/.project.toml'', ''/home/u/projects/gamma/.project.toml'']) = 3"
    by (metis length_map length_Cons list.size(3) numeral_3_eq_3)
  with s(2) s(3) e(2) show ?thesis by (simp add: e(1) del: loaded.simps)
qed

text \<open>
  C6 (amended). For every discovery scan whose walk meets no error of the operating
  system, \<open>FindProjects\<close> returns no error and exactly the entities of the descriptors
  that load, in the order of the walk: a descriptor that fails to parse is skipped and
  never aborts the scan. So one invalid descriptor among three valid ones yields exactly
  three entities (the witness).
\<close>

theorem FindProjects_skips_malformed:
  assumes "first_failing_root w rootDirs = None"
  shows "FindProjects l w rootDirs = Inr (loaded l w (all_descriptors l w rootDirs))"
  using assms by (simp add: FindProjects_def FindProjects_roots_eq)

theorem FindProjects_skips_malformed_witness:
  "first_failing_root ex_world [''/home/u/projects'', ''/home/u/scratch''] = None \<and>
   map_sum id (map (\<lambda>p. ProjectInfo_ID (ProjectInfo p)))
     (FindProjects ex_lib ex_world [''/home/u/projects'', ''/home/u/scratch'']) =
     Inr [''alpha'', ''beta'', ''gamma'']"
proof -
  note s = ex_scan [OF refl ex_files_elsewhere(1)]
  from FindProjects_skips_malformed [OF s(1), of ex_lib] s show ?thesis
    by simp
qed

subsection \<open>Errors of the operating system during the walk\<close>

text \<open>
  C10. If the walk of a root that exists meets an error of the operating system (a
  directory that cannot be read, an entry on which \<open>Lstat\<close> fails), \<open>FindProjects\<close> returns
  that error and no list: the entities found so far, in that root and in the roots
  scanned before, are dropped. \<open>first_failing_root\<close> is the first such error in the order
  of the scan; roots that do not exist are passed over.
\<close>

theorem FindProjects_aborts_on_walk_error:
  assumes "first_failing_root w rootDirs = Some e"
  shows "FindProjects l w rootDirs = Inl (PathError e)"
  using assms by (simp add: FindProjects_def FindProjects_roots_eq)

theorem FindProjects_aborts_on_walk_error_witness:
  "first_failing_root ex_world_locked [''/home/u/archive'', ''/home/u/projects''] =
     Some ErrPermission \<and>
   FindProjects ex_lib ex_world_locked [''/home/u/archive'', ''/home/u/projects''] =
     Inl (PathError ErrPermission) \<and>
   map_sum id length (FindProjects ex_lib ex_world_locked [''/home/u/archive'']) = Inr 1"
proof -
  have "files ex_world_locked = files ex_world"
    by (simp add: ex_world_locked_def)
  with ex_decode_conflict
  have "LoadProject ex_lib ex_world_locked ''/home/u/archive/old/.project.toml'' =
          Inr (migrateSchema (conflict_Project\<lparr>Path := ''/home/u/archive/old''\<rparr>))"
    by (simp add: LoadProject_def toml_DecodeFile_def os_ReadFile_def)
  with ex_locked(2,3)
  have "map_sum id length (FindProjects ex_lib ex_world_locked [''/home/u/archive'']) = Inr 1"
    by (simp add: FindProjects_def FindProjects_roots_eq
        del: first_failing_root.simps all_descriptors.simps)
  with FindProjects_aborts_on_walk_error [OF ex_locked(1), of ex_lib] ex_locked(1)
  show ?thesis by simp
qed

section \<open>Properties of the cache\<close>

lemma CacheMaxAge_eq: "CacheMaxAge = 300000000000"
  by (simp add: CacheMaxAge_def time_Minute_def)

text \<open>Saturation of the elapsed time does not change its comparison with the threshold.\<close>

lemma time_Sub_less_CacheMaxAge: "time_Sub t u < CacheMaxAge \<longleftrightarrow> t - u < 300000000000"
  by (simp add: time_Sub_def CacheMaxAge_eq maxDuration_def minDuration_def Let_def)

lemma time_Sub_self: "time_Sub t t = 0"
  by (simp add: time_Sub_def maxDuration_def minDuration_def)

lemma IsCacheValid_eq:
  "IsCacheValid l w \<longleftrightarrow>
     (\<exists>cacheFile data mtime. GetCacheFile l w = Inr cacheFile \<and>
        files w cacheFile = Present data mtime \<and> time_Now w - mtime < 300000000000)"
  by (auto simp: IsCacheValid_def os_Stat_def time_Since_def time_Sub_less_CacheMaxAge
      split: sum.splits file_state.splits)

lemma GetCacheFile_files_update [simp]:
  "GetCacheFile l (w\<lparr>files := f\<rparr>) = GetCacheFile l w"
  by (simp add: GetCacheFile_def Let_def split: sum.splits)

lemma IsCacheValid_after_save:
  assumes "SaveToCache l w projects = (None, w')"
  shows "IsCacheValid l w'"
proof -
  from assms obtain cacheFile data where
    c: "GetCacheFile l w = Inr cacheFile" and
    w': "w' = w\<lparr>files := (files w)(cacheFile := Present data (time_Now w))\<rparr>"
    by (auto simp: SaveToCache_def os_WriteFile_def split: sum.splits file_state.splits)
  show ?thesis
    by (simp add: w' IsCacheValid_def c os_Stat_def time_Since_def time_Sub_self CacheMaxAge_eq)
qed

lemma LoadFromCache_eq:
  "GetCacheFile l w = Inr cacheFile \<Longrightarrow> files w cacheFile = Present data mtime \<Longrightarrow>
     LoadFromCache l w = json_Unmarshal_projects l data"
  by (simp add: LoadFromCache_def os_ReadFile_def)

lemma FindProjectsCached_hit:
  "IsCacheValid l w \<Longrightarrow> LoadFromCache l w = Inr projects \<Longrightarrow>
     FindProjectsCached l w rootDirs = (Inr projects, [])"
  by (simp add: FindProjectsCached_def)

lemma FindProjectsCached_miss:
  "\<not> IsCacheValid l w \<or> LoadFromCache l w = Inl err \<Longrightarrow>
     fst (FindProjectsCached l w rootDirs) = FindProjects l w rootDirs"
  by (auto simp: FindProjectsCached_def Let_def split: sum.splits)

subsection \<open>The example states\<close>

lemma ex_GetCacheFile:
  "GetCacheFile ex_lib ex_world = Inr ''/home/u/.cache/pk/projects.json''"
  "GetCacheFile ex_lib ex_world_stale = Inr ''/home/u/.cache/pk/projects.json''"
  "GetCacheFile ex_lib ex_world_absent = Inr ''/home/u/.cache/pk/projects.json''"
  "GetCacheFile ex_lib ex_world_corrupt = Inr ''/home/u/.cache/pk/projects.json''"
  by (simp_all add: GetCacheFile_def ex_lib_def ex_world_def ex_world_stale_def
      ex_world_absent_def ex_world_corrupt_def)

lemma ex_snapshot_file:
  "files ex_world ''/home/u/.cache/pk/projects.json'' = Present ''snapshot'' 940000000000"
  "files ex_world_stale ''/home/u/.cache/pk/projects.json'' = Present ''snapshot'' 940000000000"
  "files ex_world_absent ''/home/u/.cache/pk/projects.json'' = Absent"
  "files ex_world_corrupt ''/home/u/.cache/pk/projects.json'' = Present ''[{'' 940000000000"
  by (simp_all add: ex_world_def ex_world_stale_def ex_world_absent_def ex_world_corrupt_def
      ex_files_def)

lemma ex_time_Now:
  "time_Now ex_world = 1000000000000"
  "time_Now ex_world_stale = 1540000000000"
  "time_Now ex_world_absent = 1000000000000"
  "time_Now ex_world_corrupt = 1000000000000"
  by (simp_all add: ex_world_def ex_world_stale_def ex_world_absent_def ex_world_corrupt_def)

lemma ex_json:
  "json_Unmarshal_projects ex_lib ''snapshot'' = Inr ex_snapshot"
  "json_Unmarshal_projects ex_lib ''[{'' = Inl (DecodeError ''invalid character'')"
  "json_MarshalIndent_projects ex_lib projects = Inr ''snapshot''"
  "json_Unmarshal_records ex_lib ''records'' = Inr ex_records"
  by (simp_all add: ex_lib_def)

lemma ex_cache_hit:
  "fst (FindProjectsCached ex_lib ex_world rootDirs) = Inr ex_snapshot"
proof -
  have "IsCacheValid ex_lib ex_world"
    by (simp add: IsCacheValid_eq ex_GetCacheFile ex_snapshot_file ex_time_Now)
  moreover have "LoadFromCache ex_lib ex_world = Inr ex_snapshot"
    by (simp add: LoadFromCache_eq [OF ex_GetCacheFile(1) ex_snapshot_file(1)] ex_json)
  ultimately show ?thesis by (simp add: FindProjectsCached_hit)
qed

lemma ex_cache_corrupt:
  "fst (FindProjectsCached ex_lib ex_world_corrupt rootDirs) =
     FindProjects ex_lib ex_world_corrupt rootDirs"
proof -
  have "LoadFromCache ex_lib ex_world_corrupt = Inl (DecodeError ''invalid character'')"
    by (simp add: LoadFromCache_eq [OF ex_GetCacheFile(4) ex_snapshot_file(4)] ex_json)
  then show ?thesis by (rule FindProjectsCached_miss [OF disjI2])
qed

subsection \<open>Validity of the snapshot\<close>

text \<open>
  C8. \<open>IsCacheValid\<close> returns true if and only if the snapshot file exists (its path is
  resolved and \<open>os.Stat\<close> succeeds on it) and the time elapsed since its modification
  time is strictly less than five minutes. In particular it returns true right after a
  successful save, and false when the modification time lies five minutes or more in
  the past.
\<close>

theorem IsCacheValid_iff_fresh:
  "(IsCacheValid l w \<longleftrightarrow>
     (\<exists>cacheFile data mtime. GetCacheFile l w = Inr cacheFile \<and>
        files w cacheFile = Present data mtime \<and> time_Now w - mtime < 5 * 60 * 1000000000)) \<and>
   (SaveToCache l w projects = (None, w') \<longrightarrow> IsCacheValid l w') \<and>
   (GetCacheFile l w = Inr cacheFile \<and> files w cacheFile = Present data mtime \<and>
    time_Now w - mtime \<ge> 5 * 60 * 1000000000 \<longrightarrow> \<not> IsCacheValid l w)"
  using IsCacheValid_after_save [of l w projects w'] by (auto simp: IsCacheValid_eq)

theorem IsCacheValid_iff_fresh_witness:
  "IsCacheValid ex_lib ex_world \<and> \<not> IsCacheValid ex_lib ex_world_stale \<and>
   fst (SaveToCache ex_lib ex_world_stale []) = None \<and>
   IsCacheValid ex_lib (snd (SaveToCache ex_lib ex_world_stale []))"
proof -
  have none: "fst (SaveToCache ex_lib ex_world_stale []) = None"
    by (simp add: SaveToCache_def ex_GetCacheFile ex_json os_WriteFile_def ex_snapshot_file)
  then have save: "SaveToCache ex_lib ex_world_stale [] =
      (None, snd (SaveToCache ex_lib ex_world_stale []))"
    by (metis prod.collapse)
  from IsCacheValid_iff_fresh [of ex_lib ex_world "[]" ex_world
      "''/home/u/.cache/pk/projects.json''" "''snapshot''" 940000000000]
  have fresh: "IsCacheValid ex_lib ex_world"
    by (simp add: ex_GetCacheFile ex_snapshot_file ex_time_Now)
  from IsCacheValid_iff_fresh [of ex_lib ex_world_stale "[]"
      "snd (SaveToCache ex_lib ex_world_stale [])"
      "''/home/u/.cache/pk/projects.json''" "''snapshot''" 940000000000] save
  have "\<not> IsCacheValid ex_lib ex_world_stale \<and>
        IsCacheValid ex_lib (snd (SaveToCache ex_lib ex_world_stale []))"
    by (simp add: ex_GetCacheFile ex_snapshot_file ex_time_Now)
  with fresh none show ?thesis by simp
qed

subsection \<open>The read path\<close>

text \<open>
  C7. On the read path of \<open>FindProjectsCached\<close>: when a snapshot younger than five
  minutes exists and deserializes, its contents are returned; when the snapshot fails
  to deserialize, is five minutes old or older, is absent or cannot be accessed, or its
  path cannot be resolved, the result is that of a live scan of the given roots. The
  error of the deserialization is not part of the result.
\<close>

theorem FindProjectsCached_read_path:
  "(GetCacheFile l w = Inr cacheFile \<and> files w cacheFile = Present data mtime \<and>
    time_Now w - mtime < 5 * 60 * 1000000000 \<and> json_Unmarshal_projects l data = Inr projects \<longrightarrow>
      fst (FindProjectsCached l w rootDirs) = Inr projects) \<and>
   (GetCacheFile l w = Inr cacheFile \<and> files w cacheFile = Present data mtime \<and>
    time_Now w - mtime < 5 * 60 * 1000000000 \<and> json_Unmarshal_projects l data = Inl err \<longrightarrow>
      fst (FindProjectsCached l w rootDirs) = FindProjects l w rootDirs) \<and>
   (GetCacheFile l w = Inr cacheFile \<and> files w cacheFile = Present data mtime \<and>
    time_Now w - mtime \<ge> 5 * 60 * 1000000000 \<longrightarrow>
      fst (FindProjectsCached l w rootDirs) = FindProjects l w rootDirs) \<and>
   (GetCacheFile l w = Inr cacheFile \<and> files w cacheFile = Absent \<longrightarrow>
      fst (FindProjectsCached l w rootDirs) = FindProjects l w rootDirs) \<and>
   (GetCacheFile l w = Inr cacheFile \<and> files w cacheFile = Inaccessible oserr \<longrightarrow>
      fst (FindProjectsCached l w rootDirs) = FindProjects l w rootDirs) \<and>
   (GetCacheFile l w = Inl err \<longrightarrow>
      fst (FindProjectsCached l w rootDirs) = FindProjects l w rootDirs)"
proof -
  have scan: "fst (case FindProjects l w rootDirs of
                     Inl err \<Rightarrow> (Inl err, [])
                   | Inr projects \<Rightarrow> (Inr projects, [Go_SaveToCache projects])) =
              FindProjects l w rootDirs"
    by (simp split: sum.splits)
  show ?thesis
    by (auto simp: FindProjectsCached_def Let_def scan IsCacheValid_eq LoadFromCache_eq
        split: sum.splits)
qed

theorem FindProjectsCached_read_path_witness:
  "fst (FindProjectsCached ex_lib ex_world [''/home/u/projects'', ''/home/u/scratch'']) =
     Inr ex_snapshot \<and>
   map_sum id (map (\<lambda>p. ProjectInfo_ID (ProjectInfo p)))
     (fst (FindProjectsCached ex_lib ex_world_corrupt [''/home/u/projects'', ''/home/u/scratch''])) =
     Inr [''alpha'', ''beta'', ''gamma''] \<and>
   map_sum id (map (\<lambda>p. ProjectInfo_ID (ProjectInfo p)))
     (fst (FindProjectsCached ex_lib ex_world_stale [''/home/u/projects'', ''/home/u/scratch''])) =
     Inr [''alpha'', ''beta'', ''gamma''] \<and>
   map_sum id (map (\<lambda>p. ProjectInfo_ID (ProjectInfo p)))
     (fst (FindProjectsCached ex_lib ex_world_absent [''/home/u/projects'', ''/home/u/scratch''])) =
     Inr [''alpha'', ''beta'', ''gamma'']"
  using
    FindProjectsCached_read_path [of ex_lib ex_world "''/home/u/.cache/pk/projects.json''"
      "''snapshot''" 940000000000 ex_snapshot "[''/home/u/projects'', ''/home/u/scratch'']"]
    FindProjectsCached_read_path [of ex_lib ex_world_corrupt "''/home/u/.cache/pk/projects.json''"
      "''[{''" 940000000000 _ "[''/home/u/projects'', ''/home/u/scratch'']"
      "DecodeError ''invalid character''"]
    FindProjectsCached_read_path [of ex_lib ex_world_stale "''/home/u/.cache/pk/projects.json''"
      "''snapshot''" 940000000000 _ "[''/home/u/projects'', ''/home/u/scratch'']"]
    FindProjectsCached_read_path [of ex_lib ex_world_absent "''/home/u/.cache/pk/projects.json''"
      _ _ _ "[''/home/u/projects'', ''/home/u/scratch'']"]
  by (simp add: ex_GetCacheFile ex_snapshot_file ex_time_Now ex_json
      ex_FindProjects(2) [OF ex_roots(1) ex_files_elsewhere(2)]
      ex_FindProjects(2) [OF ex_roots(2) ex_files_elsewhere(3)]
      ex_FindProjects(2) [OF ex_roots(3) ex_files_elsewhere(4)])

section \<open>Properties of the recency ranking\<close>

text \<open>
  The comparison of \<open>GetRecentProjects\<close> meets what \<open>sort.Slice\<close> asks of it, and a list
  in which no element is less than an earlier one is in recency order.
\<close>

lemma GetRecentProjects_less_strict_weak_order:
  "strict_weak_order (GetRecentProjects_less records)"
  unfolding strict_weak_order_def GetRecentProjects_less_def
  by (auto split: option.splits)

lemma not_GetRecentProjects_less:
  "(\<not> GetRecentProjects_less records b a) = recency_order records a b"
  by (auto simp: GetRecentProjects_less_def recency_order_def split: option.splits)

subsection \<open>The insertion sort meets the contract\<close>

lemma mset_sink: "mset (sink lt x ys) = add_mset x (mset ys)"
  by (induction ys) simp_all

lemma set_sink: "set (sink lt x ys) = insert x (set ys)"
  by (induction ys) auto

lemma sorted_sink:
  assumes "strict_weak_order lt" and "sorted_wrt (\<lambda>a b. \<not> lt a b) ys"
  shows "sorted_wrt (\<lambda>a b. \<not> lt a b) (sink lt x ys)"
  using assms(2)
proof (induction ys)
  case Nil
  show ?case by simp
next
  case (Cons y ys)
  from assms(1) have asym: "\<And>a b. lt a b \<Longrightarrow> \<not> lt b a"
    and negtrans: "\<And>a b c. \<not> lt a b \<Longrightarrow> \<not> lt b c \<Longrightarrow> \<not> lt a c"
    unfolding strict_weak_order_def by blast+
  show ?case
  proof (cases "lt x y")
    case True
    with Cons asym show ?thesis by (auto simp: set_sink)
  next
    case False
    with Cons negtrans show ?thesis by auto
  qed
qed

lemma foldl_sink:
  assumes "strict_weak_order lt" and "sorted_wrt (\<lambda>a b. \<not> lt a b) acc"
  shows "mset (foldl (\<lambda>prefix x. sink lt x prefix) acc xs) = mset acc + mset xs \<and>
         sorted_wrt (\<lambda>a b. \<not> lt a b) (foldl (\<lambda>prefix x. sink lt x prefix) acc xs)"
  using assms(2)
proof (induction xs arbitrary: acc)
  case Nil
  then show ?case by simp
next
  case (Cons x xs)
  from Cons.IH [OF sorted_sink [OF assms(1) Cons.prems, of x]]
  show ?case by (simp add: mset_sink)
qed

lemma insertionSort_sorts: "sorts insertionSort"
  unfolding sorts_def
proof (intro allI impI)
  fix lt :: "'a \<Rightarrow> 'a \<Rightarrow> bool" and xs
  assume "strict_weak_order lt"
  from foldl_sink [OF this, of "[]" xs]
  show "mset (insertionSort lt xs) = mset xs \<and>
        sorted_wrt (\<lambda>a b. \<not> lt b a) (insertionSort lt xs)"
    by (simp add: insertionSort_def sorted_wrt_rev)
qed

subsection \<open>The example states\<close>

lemma ex_LoadAccessRecords:
  "LoadAccessRecords ex_lib ex_world = Inr ex_records"
  "LoadAccessRecords ex_lib ex_world_corrupt = Inr ex_records"
  by (simp_all add: LoadAccessRecords_def GetAccessFile_def os_ReadFile_def ex_lib_def
      ex_world_def ex_world_corrupt_def ex_files_def)

lemma ex_home:
  "os_UserHomeDir ex_world = Inr ''/home/u''"
  "os_UserHomeDir ex_world_corrupt = Inr ''/home/u''"
  by (simp_all add: ex_world_def ex_world_corrupt_def)

lemma ex_Join:
  "filepath_Join ex_lib [''/home/u'', ''projects''] = ''/home/u/projects''"
  "filepath_Join ex_lib [''/home/u'', ''scratch''] = ''/home/u/scratch''"
  by (simp_all add: ex_lib_def)

lemma ex_sort_Slice: "sort_Slice ex_lib = insertionSort"
  by (simp add: ex_lib_def)

lemma ex_ranked:
  "map (\<lambda>p. ProjectInfo_ID (ProjectInfo p))
     (insertionSort (GetRecentProjects_less ex_records) ex_entities) =
   [''gamma'', ''beta'', ''alpha'']"
  "map (\<lambda>p. ProjectInfo_ID (ProjectInfo p))
     (insertionSort (GetRecentProjects_less ex_records) ex_snapshot) =
   [''gamma'', ''beta'', ''alpha'', ''delta'']"
  by (simp_all add: insertionSort_def GetRecentProjects_less_def ex_records_def ex_entities_def
      ex_snapshot_def set_ID_def migrateSchema_unchanged zero_Project_def)

subsection \<open>The ranking\<close>

text \<open>
  C9. For every mapping of access records and every list of discovered projects,
  \<open>GetRecentProjects limit\<close> returns the projects in recency order (descending by the
  time of the last access, the projects never accessed after all accessed ones), cut to
  the first \<open>limit\<close> elements when \<open>limit\<close> is positive and smaller than the length of
  the list, and whole otherwise, so in particular when \<open>limit\<close> is not positive. The
  ranked list is what \<open>sort.Slice\<close> makes of the discovered list; \<open>sort.Slice\<close> is assumed
  to meet its contract. With three projects accessed at times \<open>100 < 200 < 300\<close>,
  \<open>GetRecentProjects 2\<close> returns the projects of the times \<open>300\<close> and \<open>200\<close>, in this
  order (the witness).
\<close>

theorem GetRecentProjects_ranked:
  assumes "sorts (sort_Slice l)"
    and "LoadAccessRecords l w = Inr records"
    and "os_UserHomeDir w = Inr homeDir"
    and "fst (FindProjectsCached l w [filepath_Join l [homeDir, ''projects''],
                                      filepath_Join l [homeDir, ''scratch'']]) = Inr projects"
  shows "let ranked = sort_Slice l (GetRecentProjects_less records) projects
         in mset ranked = mset projects \<and>
            sorted_wrt (recency_order records) ranked \<and>
            GetRecentProjects l w limit =
              Inr (if 0 < limit \<and> limit < int (length projects)
                   then take (nat limit) ranked else ranked)"
proof -
  define ranked where "ranked = sort_Slice l (GetRecentProjects_less records) projects"
  from assms(1) GetRecentProjects_less_strict_weak_order [of records]
  have m: "mset ranked = mset projects"
    and s: "sorted_wrt (\<lambda>a b. \<not> GetRecentProjects_less records b a) ranked"
    unfolding sorts_def ranked_def by blast+
  from s have s': "sorted_wrt (recency_order records) ranked"
    by (simp add: not_GetRecentProjects_less)
  from m have len: "length ranked = length projects"
    by (rule mset_eq_length)
  have "GetRecentProjects l w limit =
          Inr (if 0 < limit \<and> limit < int (length projects)
               then take (nat limit) ranked else ranked)"
    using assms(2,3,4) len by (simp add: GetRecentProjects_def Let_def ranked_def)
  with m s' show ?thesis by (simp add: ranked_def Let_def)
qed

theorem GetRecentProjects_ranked_witness:
  "map_sum id (map (\<lambda>p. ProjectInfo_ID (ProjectInfo p)))
     (GetRecentProjects ex_lib ex_world_corrupt 2) = Inr [''gamma'', ''beta''] \<and>
   map_sum id (map (\<lambda>p. ProjectInfo_ID (ProjectInfo p)))
     (GetRecentProjects ex_lib ex_world 2) = Inr [''gamma'', ''beta''] \<and>
   map_sum id (map (\<lambda>p. ProjectInfo_ID (ProjectInfo p)))
     (GetRecentProjects ex_lib ex_world 0) = Inr [''gamma'', ''beta'', ''alpha'', ''delta'']"
proof -
  have s: "sorts (sort_Slice ex_lib)"
    by (simp add: ex_sort_Slice insertionSort_sorts)
  have hit: "fst (FindProjectsCached ex_lib ex_world
      [filepath_Join ex_lib [''/home/u'', ''projects''],
       filepath_Join ex_lib [''/home/u'', ''scratch'']]) = Inr ex_snapshot"
    by (rule ex_cache_hit)
  have scan: "fst (FindProjectsCached ex_lib ex_world_corrupt
      [filepath_Join ex_lib [''/home/u'', ''projects''],
       filepath_Join ex_lib [''/home/u'', ''scratch'']]) = Inr ex_entities"
    by (simp add: ex_cache_corrupt ex_Join
        ex_FindProjects(1) [OF ex_roots(1) ex_files_elsewhere(2)]
        ex_scan(5) [OF ex_roots(1) ex_files_elsewhere(2)] del: loaded.simps)
  have len: "length ex_snapshot = 4" "length ex_entities = 3"
    by (simp_all add: ex_snapshot_def ex_entities_def)
  from GetRecentProjects_ranked [OF s ex_LoadAccessRecords(2) ex_home(2) scan, of 2]
    GetRecentProjects_ranked [OF s ex_LoadAccessRecords(1) ex_home(1) hit, of 2]
    GetRecentProjects_ranked [OF s ex_LoadAccessRecords(1) ex_home(1) hit, of 0]
    ex_ranked
  show ?thesis
    by (simp add: Let_def ex_sort_Slice len take_map [symmetric])
qed

end
